theory Spec2Isabelle
  imports Complex_Main "HOL-Library.Multiset"
begin

section \<open>Random draws\<close>

text \<open>
  \<^verbatim>\<open>generate_synthetic_data.py\<close> reads two process-wide pseudo-random generators
  (\<^verbatim>\<open>random\<close> and \<^verbatim>\<open>np.random\<close>). The embedding makes every draw an explicit
  argument of the function that makes it, so a statement quantified over the draws holds for
  every run of the generator.

  \<^item> \<^verbatim>\<open>random.random()\<close> and the uniform sample behind \<^verbatim>\<open>np.random.choice\<close> return a
    float in the half-open unit interval: a real \<open>u\<close> with \<open>unit_draw u\<close>.
  \<^item> \<^verbatim>\<open>random.randint(a, b)\<close> is \<^verbatim>\<open>a + _randbelow(b - a + 1)\<close> and
    \<^verbatim>\<open>random.choice(seq)\<close> is \<^verbatim>\<open>seq[_randbelow(len(seq))]\<close>; the generator's raw
    output \<open>r\<close> is reduced below the bound, so every raw value is one of the possible outcomes
    and every outcome \<open>k\<close> is the value at \<open>r = k\<close>.
  \<^item> \<^verbatim>\<open>random.normalvariate\<close> and \<^verbatim>\<open>np.random.normal\<close> return a finite float, a real.
  \<^item> \<^verbatim>\<open>random.sample(population, k)\<close> returns the elements at \<open>k\<close> distinct positions,
    and \<^verbatim>\<open>random.shuffle(x)\<close> rearranges \<open>x\<close> in place by a permutation of its positions.

  Binary floating point is read as exact real arithmetic: a float literal such as \<^verbatim>\<open>0.516\<close>
  is the decimal it is written as.
\<close>

definition unit_draw :: "real \<Rightarrow> bool" where
  "unit_draw u = (0 \<le> u \<and> u < 1)"

definition randbelow :: "nat \<Rightarrow> nat \<Rightarrow> nat" where
  "randbelow n r = r mod n"

definition py_randint :: "int \<Rightarrow> int \<Rightarrow> nat \<Rightarrow> int" where
  "py_randint a b r = a + int (randbelow (nat (b - a + 1)) r)"

definition py_choice :: "'a list \<Rightarrow> nat \<Rightarrow> 'a" where
  "py_choice seq r = seq ! randbelow (length seq) r"

text \<open>\<^verbatim>\<open>int(x)\<close> on a float truncates towards zero.\<close>

definition py_int :: "real \<Rightarrow> int" where
  "py_int x = (if 0 \<le> x then \<lfloor>x\<rfloor> else \<lceil>x\<rceil>)"

text \<open>
  \<^verbatim>\<open>np.random.choice(a, p=p)\<close> draws one uniform sample \<open>u\<close> and returns the entry of
  \<open>a\<close> at the first position whose cumulative weight exceeds \<open>u\<close> (a right-sided search
  of the cumulative sums).
\<close>

fun searchsorted_right :: "real list \<Rightarrow> real \<Rightarrow> real \<Rightarrow> nat" where
  "searchsorted_right [] acc u = 0"
| "searchsorted_right (p # ps) acc u =
     (if u < acc + p then 0 else Suc (searchsorted_right ps (acc + p) u))"

definition np_random_choice :: "'a list \<Rightarrow> real list \<Rightarrow> real \<Rightarrow> 'a" where
  "np_random_choice a p u = a ! searchsorted_right p 0 u"

text \<open>\<^verbatim>\<open>np.clip(x, lo, hi)\<close> and \<^verbatim>\<open>round(x, 1)\<close> (to one decimal, ties to even).\<close>

definition np_clip :: "real \<Rightarrow> real \<Rightarrow> real \<Rightarrow> real" where
  "np_clip x lo hi = min (max x lo) hi"

definition round_half_even :: "real \<Rightarrow> int" where
  "round_half_even x =
     (let f = \<lfloor>x\<rfloor>; d = x - of_int f
      in if d < 1 / 2 then f else if 1 / 2 < d then f + 1
         else if even f then f else f + 1)"

definition py_round1 :: "real \<Rightarrow> real" where
  "py_round1 x = of_int (round_half_even (x * 10)) / 10"

section \<open>Range classification\<close>

definition get_bp_type :: "int \<Rightarrow> int \<Rightarrow> string \<times> string" where
  "get_bp_type systolic diastolic =
     (let systolic_type =
            (if systolic < 90 then ''Low blood pressure''
             else if 90 \<le> systolic \<and> systolic \<le> 120 then ''Ideal''
             else if 120 < systolic \<and> systolic \<le> 140 then ''Pre-high blood pressure''
             else ''High blood pressure'');
          diastolic_type =
            (if diastolic < 60 then ''Low blood pressure''
             else if 60 \<le> diastolic \<and> diastolic \<le> 80 then ''Ideal''
             else if 80 < diastolic \<and> diastolic \<le> 90 then ''Pre-high blood pressure''
             else ''High blood pressure'')
      in (systolic_type, diastolic_type))"

definition get_glucose_range :: "real \<Rightarrow> string \<Rightarrow> string" where
  "get_glucose_range glucose measurement_type =
     (if measurement_type = ''Pre meal'' then
        (if glucose < 4.0 then ''below range''
         else if 4.0 \<le> glucose \<and> glucose \<le> 7.0 then ''in range''
         else ''above range'')
      else
        (if glucose < 5.0 then ''below range''
         else if 5.0 \<le> glucose \<and> glucose \<le> 10.0 then ''in range''
         else ''above range''))"

section \<open>Measurement timestamps\<close>

definition digit :: "nat \<Rightarrow> char" where
  "digit d = ''0123456789'' ! d"

fun decimal :: "nat \<Rightarrow> string" where
  "decimal n = (if n < 10 then [digit n] else decimal (n div 10) @ [digit (n mod 10)])"

text \<open>The format \<^verbatim>\<open>{n:02d}\<close>: the sign, then the digits, zero-padded to width 2.\<close>

definition fmt_02d :: "int \<Rightarrow> string" where
  "fmt_02d n =
     (if n < 0 then CHR ''-'' # decimal (nat (- n))
      else replicate (2 - length (decimal (nat n))) CHR ''0'' @ decimal (nat n))"

definition valid_time :: "int \<Rightarrow> int list \<Rightarrow> int \<Rightarrow> bool" where
  "valid_time min_hours_between used_times time_in_minutes =
     list_all (\<lambda>used_time.
        let time_diff = \<bar>time_in_minutes - used_time\<bar>;
            time_diff = (if time_diff > 12 * 60 then 24 * 60 - time_diff else time_diff)
        in \<not> time_diff < min_hours_between * 60) used_times"

text \<open>
  The inner \<^verbatim>\<open>while attempts < max_attempts\<close> loop for one reading. \<open>draws\<close> is the
  sequence of raw (hour, minute) draws of the call, \<open>pos\<close> the next one to use. The result is
  the new \<open>used_times\<close>, the reading's timestamp and the next position; after 50 rejected
  candidates the last candidate is used and \<open>used_times\<close> is left as it was.
\<close>

function find_timestamp ::
  "int \<Rightarrow> (nat \<Rightarrow> nat \<times> nat) \<Rightarrow> int list \<Rightarrow> nat \<Rightarrow> nat \<Rightarrow> int list \<times> string \<times> nat" where
  "find_timestamp min_hours_between draws used_times pos attempts =
     (let hour = py_randint 0 23 (fst (draws pos));
          minute = py_randint 0 59 (snd (draws pos));
          time_in_minutes = hour * 60 + minute;
          timestamp = fmt_02d hour @ '':'' @ fmt_02d minute
      in if valid_time min_hours_between used_times time_in_minutes
         then (used_times @ [time_in_minutes], timestamp, pos + 1)
         else if attempts + 1 < 50
         then find_timestamp min_hours_between draws used_times (pos + 1) (attempts + 1)
         else (used_times, timestamp, pos + 1))"
  by pat_completeness auto
termination
  by (relation "measure (\<lambda>(m, d, u, p, a). 50 - a)") auto

fun timestamps_loop ::
  "int \<Rightarrow> (nat \<Rightarrow> nat \<times> nat) \<Rightarrow> nat \<Rightarrow> string list \<times> int list \<times> nat \<Rightarrow>
   string list \<times> int list \<times> nat" where
  "timestamps_loop min_hours_between draws 0 st = st"
| "timestamps_loop min_hours_between draws (Suc n) (timestamps, used_times, pos) =
     (case find_timestamp min_hours_between draws used_times pos 0 of
        (used_times', timestamp, pos') \<Rightarrow>
          timestamps_loop min_hours_between draws n
            (timestamps @ [timestamp], used_times', pos'))"

definition generate_measurement_timestamps_with_spacing ::
  "nat \<Rightarrow> int \<Rightarrow> (nat \<Rightarrow> nat \<times> nat) \<Rightarrow> string list" where
  "generate_measurement_timestamps_with_spacing num_readings min_hours_between draws =
     (if num_readings = 0 then ['''', '''', '''', '''']
      else
        (let timestamps = fst (timestamps_loop min_hours_between draws num_readings ([], [], 0))
         in timestamps @ replicate (4 - length timestamps) ''''))"

section \<open>Blood pressure and glucose readings\<close>

text \<open>
  The weights of the reading count, as both generators pass them to \<^verbatim>\<open>np.random.choice\<close>.
\<close>

definition reading_count_values :: "nat list" where
  "reading_count_values = [1, 2, 3, 4]"

definition reading_count_weights :: "real list" where
  "reading_count_weights = [0.516, 0.258, 0.129, 0.097]"

record bp_readings =
  systolic_readings :: "int list"
  diastolic_readings :: "int list"
  systolic_types :: "string list"
  diastolic_types :: "string list"
  bp_timestamps :: "string list"

text \<open>
  The draws of one call: the uniform sample for the count, the raw timestamp draws, and for
  slot \<open>i\<close> the two \<^verbatim>\<open>random.normalvariate\<close> results (systolic first).
\<close>

record bp_draws =
  bp_count_draw :: real
  bp_time_draws :: "nat \<Rightarrow> nat \<times> nat"
  bp_normal_draws :: "nat \<Rightarrow> real \<times> real"

text \<open>The sampled reading count: \<^verbatim>\<open>np.random.choice([1, 2, 3, 4], p=[...])\<close>.\<close>

definition bp_num_readings :: "bp_draws \<Rightarrow> nat" where
  "bp_num_readings d =
     np_random_choice reading_count_values reading_count_weights (bp_count_draw d)"

text \<open>One pass of the body of \<^verbatim>\<open>for i in range(4)\<close>.\<close>

definition bp_slot :: "nat \<Rightarrow> (nat \<Rightarrow> real \<times> real) \<Rightarrow> nat \<Rightarrow> int \<times> int \<times> string \<times> string" where
  "bp_slot num_readings normal_draws i =
     (if i < num_readings then
        (let systolic = py_int (fst (normal_draws i));
             max_diastolic = systolic - 10;
             diastolic = py_int (snd (normal_draws i));
             diastolic = min diastolic max_diastolic;
             diastolic = (if diastolic \<ge> systolic then max 40 (systolic - 10) else diastolic);
             (systolic_type, diastolic_type) = get_bp_type systolic diastolic
         in (systolic, diastolic, systolic_type, diastolic_type))
      else (0, 0, '''', ''''))"

definition generate_blood_pressure_readings :: "bool \<Rightarrow> bp_draws \<Rightarrow> bp_readings" where
  "generate_blood_pressure_readings has_condition d =
     (if \<not> has_condition then
        \<lparr>systolic_readings = [0, 0, 0, 0], diastolic_readings = [0, 0, 0, 0],
         systolic_types = ['''', '''', '''', ''''], diastolic_types = ['''', '''', '''', ''''],
         bp_timestamps = ['''', '''', '''', '''']\<rparr>
      else
        (let num_readings = bp_num_readings d;
             timestamps = generate_measurement_timestamps_with_spacing num_readings 1
                            (bp_time_draws d);
             slots = map (bp_slot num_readings (bp_normal_draws d)) [0..<4]
         in \<lparr>systolic_readings = map (\<lambda>(s, d, st, dt). s) slots,
             diastolic_readings = map (\<lambda>(s, d, st, dt). d) slots,
             systolic_types = map (\<lambda>(s, d, st, dt). st) slots,
             diastolic_types = map (\<lambda>(s, d, st, dt). dt) slots,
             bp_timestamps = timestamps\<rparr>))"

record glucose_readings =
  glucose_values :: "real list"
  measurement_types :: "string list"
  glucose_ranges :: "string list"
  glucose_timestamps :: "string list"

text \<open>
  The draws of one call: the uniform sample for the count, the raw timestamp draws, and for
  slot \<open>i\<close> the raw draw of \<^verbatim>\<open>random.choice\<close> and the \<^verbatim>\<open>np.random.normal\<close> result.
\<close>

record glucose_draws =
  glucose_count_draw :: real
  glucose_time_draws :: "nat \<Rightarrow> nat \<times> nat"
  glucose_slot_draws :: "nat \<Rightarrow> nat \<times> real"

definition glucose_num_readings :: "glucose_draws \<Rightarrow> nat" where
  "glucose_num_readings d =
     np_random_choice reading_count_values reading_count_weights (glucose_count_draw d)"

definition glucose_slot :: "nat \<Rightarrow> (nat \<Rightarrow> nat \<times> real) \<Rightarrow> nat \<Rightarrow> real \<times> string \<times> string" where
  "glucose_slot num_readings slot_draws i =
     (if i < num_readings then
        (let measurement_type = py_choice [''Pre meal'', ''2-hour post meal''] (fst (slot_draws i));
             glucose =
               (if measurement_type = ''Pre meal''
                then py_round1 (np_clip (snd (slot_draws i)) 3.0 9.0)
                else py_round1 (np_clip (snd (slot_draws i)) 4.0 12.0));
             glucose_range = get_glucose_range glucose measurement_type
         in (glucose, measurement_type, glucose_range))
      else (0, '''', ''''))"

definition generate_glucose_readings :: "bool \<Rightarrow> glucose_draws \<Rightarrow> glucose_readings" where
  "generate_glucose_readings has_diabetes d =
     (if \<not> has_diabetes then
        \<lparr>glucose_values = [0, 0, 0, 0], measurement_types = ['''', '''', '''', ''''],
         glucose_ranges = ['''', '''', '''', ''''], glucose_timestamps = ['''', '''', '''', '''']\<rparr>
      else
        (let num_readings = glucose_num_readings d;
             timestamps = generate_measurement_timestamps_with_spacing num_readings 1
                            (glucose_time_draws d);
             slots = map (glucose_slot num_readings (glucose_slot_draws d)) [0..<4]
         in \<lparr>glucose_values = map (\<lambda>(g, t, r). g) slots,
             measurement_types = map (\<lambda>(g, t, r). t) slots,
             glucose_ranges = map (\<lambda>(g, t, r). r) slots,
             glucose_timestamps = timestamps\<rparr>))"

section \<open>The daily record\<close>

text \<open>
  \<^verbatim>\<open>generate_patient_data\<close> builds one dictionary per date. The columns modelled here are the
  date and the twenty blood-pressure and sixteen glucose columns
  (\<^verbatim>\<open>Systolic_1\<close> to \<^verbatim>\<open>Glucose_Time_4\<close>), one record per reading slot; the other
  columns do not depend on these. \<open>date_range\<close> is the module's list of dates.
\<close>

record bp_columns =
  Systolic :: int
  Diastolic :: int
  Systolic_Type :: string
  Diastolic_Type :: string
  BP_Time :: string

record glucose_columns =
  Glucose :: real
  Glucose_Measurement_Type :: string
  Glucose_Range :: string
  Glucose_Time :: string

record day_data =
  Date :: string
  BP :: "bp_columns list"
  Glucose_Slots :: "glucose_columns list"

record day_draws =
  day_bp_draws :: bp_draws
  day_glucose_draws :: glucose_draws

text \<open>The body of the loop for one date, with the flags computed before the loop.\<close>

definition generate_day :: "bool \<Rightarrow> bool \<Rightarrow> bool \<Rightarrow> string \<Rightarrow> day_draws \<Rightarrow> day_data" where
  "generate_day has_hypertension has_heart_disease has_diabetes date d =
     (let bp = generate_blood_pressure_readings (has_hypertension \<or> has_heart_disease)
                 (day_bp_draws d);
          gl = generate_glucose_readings has_diabetes (day_glucose_draws d)
      in \<lparr>Date = date,
          BP = map (\<lambda>i. \<lparr>Systolic = systolic_readings bp ! i,
                          Diastolic = diastolic_readings bp ! i,
                          Systolic_Type = systolic_types bp ! i,
                          Diastolic_Type = diastolic_types bp ! i,
                          BP_Time = bp_timestamps bp ! i\<rparr>) [0..<4],
          Glucose_Slots = map (\<lambda>i. \<lparr>Glucose = glucose_values gl ! i,
                          Glucose_Measurement_Type = measurement_types gl ! i,
                          Glucose_Range = glucose_ranges gl ! i,
                          Glucose_Time = glucose_timestamps gl ! i\<rparr>) [0..<4]\<rparr>)"

text \<open>The loop \<^verbatim>\<open>for date in date_range\<close>; \<open>draws k\<close> are the draws of the \<open>k\<close>-th day.\<close>

definition generate_patient_data ::
  "string list \<Rightarrow> string list \<Rightarrow> (nat \<Rightarrow> day_draws) \<Rightarrow> day_data list" where
  "generate_patient_data conditions date_range draws =
     (let cond_set = set conditions;
          has_hypertension = ''Hypertension'' \<in> cond_set;
          has_diabetes = ''Diabetes'' \<in> cond_set;
          has_heart_disease = ''Ischemic heart disease'' \<in> cond_set
      in map (\<lambda>k. generate_day has_hypertension has_heart_disease has_diabetes
                    (date_range ! k) (draws k)) [0..<length date_range])"

section \<open>Exercise\<close>

definition EXERCISE_TYPES :: "string list" where
  "EXERCISE_TYPES =
     [''walking'', ''swimming'', ''running'', ''biking'', ''muscle-strengthening'', ''balance'',
      ''other'']"

definition exercise_probs :: "real list" where
  "exercise_probs = [0.516, 0.258, 0.129, 0.065, 0.032]"

text \<open>
  \<^verbatim>\<open>random.sample(population, k)\<close>: \<open>idxs\<close> are the positions it picks, in the order of the
  result. They are \<open>k\<close> distinct positions of the population.
\<close>

definition sample_positions :: "nat \<Rightarrow> nat \<Rightarrow> nat list \<Rightarrow> bool" where
  "sample_positions n k idxs = (length idxs = k \<and> distinct idxs \<and> list_all (\<lambda>i. i < n) idxs)"

definition py_sample :: "'a list \<Rightarrow> nat list \<Rightarrow> 'a list" where
  "py_sample population idxs = map ((!) population) idxs"

record exercise_slot =
  Exercise_Type :: string
  Exercise_Minutes :: int
  Exercise_Category :: string

text \<open>
  The draws of one call: the uniform sample for the count, the raw draw of
  \<^verbatim>\<open>random.randint(5, 29)\<close>, the positions of \<^verbatim>\<open>random.sample\<close>, and the raw draws of the
  successive \<^verbatim>\<open>random.randint(1, total_minutes-1)\<close>.
\<close>

record exercise_draws =
  exercise_count_draw :: real
  total_minutes_draw :: nat
  exercise_sample_draw :: "nat list"
  split_draws :: "nat \<Rightarrow> nat"

definition num_exercises_of :: "exercise_draws \<Rightarrow> nat" where
  "num_exercises_of d = np_random_choice [1, 2, 3, 4, 5] exercise_probs (exercise_count_draw d)"

definition total_minutes_of :: "exercise_draws \<Rightarrow> int" where
  "total_minutes_of d = py_randint 5 29 (total_minutes_draw d)"

definition exercise_minutes_of :: "nat \<Rightarrow> int \<Rightarrow> (nat \<Rightarrow> nat) \<Rightarrow> int list" where
  "exercise_minutes_of num_exercises total_minutes sd =
     (if num_exercises = 1 then [total_minutes]
      else
        (let splits = sort (map (\<lambda>k. py_randint 1 (total_minutes - 1) (sd k))
                              [0..<num_exercises - 1]);
             splits = [0] @ splits @ [total_minutes]
         in map (\<lambda>i. splits ! (i + 1) - splits ! i) [0..<num_exercises]))"

text \<open>
  The result dictionary, one record per slot: \<^verbatim>\<open>Exercise_Type_k\<close>, \<^verbatim>\<open>Exercise_Minutes_k\<close>
  and \<^verbatim>\<open>Exercise_Category_k\<close> for \<open>k\<close> from 1 to 5. \<open>exercise_slot_at\<close> is the three
  entries of one slot, at the list index \<open>k - 1\<close>.
\<close>

definition exercise_slot_at :: "string list \<Rightarrow> int list \<Rightarrow> nat \<Rightarrow> exercise_slot" where
  "exercise_slot_at selected_exercises exercise_minutes k =
     \<lparr>Exercise_Type = (if length selected_exercises > k then selected_exercises ! k else ''''),
      Exercise_Minutes = (if length selected_exercises > k then exercise_minutes ! k else 0),
      Exercise_Category = (if length selected_exercises > k then selected_exercises ! k else '''')\<rparr>"

definition generate_exercise_data :: "exercise_draws \<Rightarrow> exercise_slot list" where
  "generate_exercise_data d =
     (let num_exercises = num_exercises_of d;
          total_minutes = total_minutes_of d;
          selected_exercises = py_sample EXERCISE_TYPES (exercise_sample_draw d);
          exercise_minutes = exercise_minutes_of num_exercises total_minutes (split_draws d)
      in [exercise_slot_at selected_exercises exercise_minutes 0,
          exercise_slot_at selected_exercises exercise_minutes 1,
          exercise_slot_at selected_exercises exercise_minutes 2,
          exercise_slot_at selected_exercises exercise_minutes 3,
          exercise_slot_at selected_exercises exercise_minutes 4])"

text \<open>The entries of a slot that is not used.\<close>

definition unused_slot :: exercise_slot where
  "unused_slot = \<lparr>Exercise_Type = '''', Exercise_Minutes = 0, Exercise_Category = ''''\<rparr>"

text \<open>The draws a run can make: a uniform sample, and as many sample positions as exercises.\<close>

definition exercise_draws_ok :: "exercise_draws \<Rightarrow> bool" where
  "exercise_draws_ok d =
     (unit_draw (exercise_count_draw d) \<and>
      sample_positions (length EXERCISE_TYPES) (num_exercises_of d) (exercise_sample_draw d))"

section \<open>Chronic conditions\<close>

text \<open>
  The draws of one call: the ten \<^verbatim>\<open>random.random()\<close> results in the order of the calls, the
  positions of \<^verbatim>\<open>random.sample(..., 2)\<close> and the raw draw of \<^verbatim>\<open>random.choice\<close>.
\<close>

record condition_draws =
  prevalence_draws :: "nat \<Rightarrow> real"
  condition_sample_draw :: "nat list"
  condition_choice_draw :: nat

text \<open>The statement \<^verbatim>\<open>if b: conditions.append(c)\<close>.\<close>

definition append_if :: "bool \<Rightarrow> string \<Rightarrow> string list \<Rightarrow> string list" where
  "append_if b c conditions = (if b then conditions @ [c] else conditions)"

definition prevalence_conditions :: "(nat \<Rightarrow> real) \<Rightarrow> string list" where
  "prevalence_conditions r =
     (let conditions = [];
          conditions = append_if (r 0 < 0.657) ''Hypertension'' conditions;
          conditions = append_if (r 1 < 0.52) ''Periodontal disease'' conditions;
          conditions = append_if (r 2 < 0.38) ''Osteoarthritis'' conditions;
          conditions = append_if (r 3 < 0.27) ''Ischemic heart disease'' conditions;
          conditions = append_if (r 4 < 0.268) ''Diabetes'' conditions;
          conditions = append_if (r 5 < 0.251) ''Osteoporosis'' conditions;
          conditions = append_if (r 6 < 0.215) ''Cancer'' conditions;
          conditions = append_if (r 7 < 0.202) ''COPD'' conditions;
          conditions = append_if (r 8 < 0.107) ''Asthma'' conditions;
          conditions = append_if (r 9 < 0.105) ''Mood and/or anxiety disorder'' conditions
      in conditions)"

text \<open>The loop \<^verbatim>\<open>for condition in common_conditions\<close> with its \<^verbatim>\<open>break\<close>.\<close>

fun force_add :: "string list \<Rightarrow> string list \<Rightarrow> string list" where
  "force_add [] conditions = conditions"
| "force_add (condition # rest) conditions =
     (if condition \<notin> set conditions then
        (let conditions = conditions @ [condition]
         in if length conditions \<ge> 2 then conditions else force_add rest conditions)
      else force_add rest conditions)"

definition assign_conditions :: "condition_draws \<Rightarrow> string list" where
  "assign_conditions d =
     (let conditions = prevalence_conditions (prevalence_draws d);
          conditions =
            (if length conditions = 0 then
               conditions @ py_sample [''Hypertension'', ''Osteoarthritis'', ''Diabetes'',
                                       ''Osteoporosis''] (condition_sample_draw d)
             else if length conditions = 1 then
               (let additional_conditions =
                      [''Hypertension'', ''Diabetes'', ''Osteoarthritis'', ''Osteoporosis'',
                       ''Mood and/or anxiety disorder'', ''Ischemic heart disease''];
                    available_conditions =
                      filter (\<lambda>c. c \<notin> set conditions) additional_conditions
                in if available_conditions \<noteq> []
                   then conditions @ [py_choice available_conditions (condition_choice_draw d)]
                   else conditions)
             else conditions);
          conditions =
            (if length conditions < 2
             then force_add [''Hypertension'', ''Osteoarthritis'', ''Diabetes''] conditions
             else conditions)
      in conditions)"

section \<open>Medication assignment\<close>

type_synonym medication = "string \<times> string \<times> string \<times> string"

definition med_category :: "medication \<Rightarrow> string" where
  "med_category m = fst (snd (snd m))"

text \<open>The substring test \<^verbatim>\<open>needle in haystack\<close> on strings.\<close>

fun starts_with :: "string \<Rightarrow> string \<Rightarrow> bool" where
  "starts_with s [] = True"
| "starts_with [] (p # ps) = False"
| "starts_with (c # s) (p # ps) = (c = p \<and> starts_with s ps)"

fun str_in :: "string \<Rightarrow> string \<Rightarrow> bool" where
  "str_in needle [] = (needle = [])"
| "str_in needle (c # haystack) = (starts_with (c # haystack) needle \<or> str_in needle haystack)"

text \<open>
  \<^verbatim>\<open>random.shuffle(x)\<close> rearranges the list in place: afterwards position \<open>i\<close> holds the
  element that was at position \<open>perm ! i\<close>, for a permutation \<open>perm\<close> of the positions.
\<close>

definition shuffle_positions :: "nat \<Rightarrow> nat list \<Rightarrow> bool" where
  "shuffle_positions n perm = (sort perm = [0..<n])"

definition py_shuffle :: "'a list \<Rightarrow> nat list \<Rightarrow> 'a list" where
  "py_shuffle x perm = map ((!) x) perm"

record med_flags =
  has_hypertension :: bool
  has_diabetes :: bool
  has_pain :: bool
  has_mood_disorder :: bool
  has_respiratory :: bool
  has_cancer :: bool

definition condition_flags :: "string list \<Rightarrow> med_flags" where
  "condition_flags conditions =
     (let cond_set = set conditions
      in \<lparr>has_hypertension = (''Hypertension'' \<in> cond_set \<or> ''Ischemic heart disease'' \<in> cond_set),
          has_diabetes = (''Diabetes'' \<in> cond_set),
          has_pain = (''Osteoarthritis'' \<in> cond_set \<or> ''Osteoporosis'' \<in> cond_set),
          has_mood_disorder = (''Mood and/or anxiety disorder'' \<in> cond_set),
          has_respiratory = (''COPD'' \<in> cond_set \<or> ''Asthma'' \<in> cond_set),
          has_cancer = (''Cancer'' \<in> cond_set)\<rparr>)"

text \<open>
  The chain that sets \<^verbatim>\<open>should_assign\<close> for one candidate. \<open>rnd\<close> is the sequence of results of
  the call's successive \<^verbatim>\<open>random.random()\<close>, \<open>k\<close> the next one to use; the result is
  \<^verbatim>\<open>should_assign\<close> and the next position.
\<close>

definition should_assign_of :: "med_flags \<Rightarrow> string \<Rightarrow> (nat \<Rightarrow> real) \<Rightarrow> nat \<Rightarrow> bool \<times> nat" where
  "should_assign_of f category rnd k =
     (if str_in ''Heart health and hypertension'' category \<and> has_hypertension f then (True, k)
      else if str_in ''Diabetes'' category \<and> has_diabetes f then (True, k)
      else if str_in ''Chronic pain and musculoskeletal'' category \<and> has_pain f then (True, k)
      else if str_in ''Mental health'' category \<and> has_mood_disorder f then (True, k)
      else if has_respiratory f \<and> str_in ''Other'' category then (rnd k < 0.6, k + 1)
      else if has_cancer f \<and>
              (str_in ''Other'' category \<or> str_in ''Vitamins and supplements'' category)
      then (rnd k < 0.7, k + 1)
      else if str_in ''Vitamins and supplements'' category then (rnd k < 0.7, k + 1)
      else (False, k))"

definition count_of :: "(string \<rightharpoonup> nat) \<Rightarrow> string \<Rightarrow> nat" where
  "count_of category_counts category =
     (case category_counts category of None \<Rightarrow> 0 | Some n \<Rightarrow> n)"

text \<open>
  The loop \<^verbatim>\<open>for med, med_type, category, dosage in all_medications\<close>, on the state
  (\<^verbatim>\<open>assigned_meds\<close>, \<^verbatim>\<open>category_counts\<close>, next position in \<open>rnd\<close>). The retention draw
  is made only when \<^verbatim>\<open>should_assign\<close> holds (\<^verbatim>\<open>and\<close> does not evaluate its right side
  otherwise).
\<close>

fun assign_loop ::
  "med_flags \<Rightarrow> (nat \<Rightarrow> real) \<Rightarrow> medication list \<Rightarrow>
   medication list \<times> (string \<rightharpoonup> nat) \<times> nat \<Rightarrow> medication list \<times> (string \<rightharpoonup> nat) \<times> nat" where
  "assign_loop f rnd [] st = st"
| "assign_loop f rnd ((med, med_type, category, dosage) # rest)
     (assigned_meds, category_counts, k) =
     (if count_of category_counts category \<ge> 2
      then assign_loop f rnd rest (assigned_meds, category_counts, k)
      else
        (case should_assign_of f category rnd k of
           (should_assign, k1) \<Rightarrow>
             if should_assign then
               (if rnd k1 < 0.9
                then assign_loop f rnd rest
                       (assigned_meds @ [(med, med_type, category, dosage)],
                        category_counts(category \<mapsto> count_of category_counts category + 1),
                        k1 + 1)
                else assign_loop f rnd rest (assigned_meds, category_counts, k1 + 1))
             else assign_loop f rnd rest (assigned_meds, category_counts, k1)))"

definition default_medication :: "med_flags \<Rightarrow> medication" where
  "default_medication f =
     (if has_hypertension f
      then (''Lisinopril'', ''Prescribed'', ''Heart health and hypertension'', ''10 mg once daily'')
      else if has_diabetes f
      then (''Metformin'', ''Prescribed'', ''Diabetes (oral or injectable)'', ''500 mg twice daily'')
      else if has_pain f
      then (''Ibuprofen'', ''Prescribed'', ''Chronic pain and musculoskeletal'', ''400 mg as needed'')
      else if has_mood_disorder f
      then (''Sertraline'', ''Prescribed'', ''Mental health (mood and anxiety)'', ''50 mg once daily'')
      else (''Vitamin D'', ''Supplement'', ''Vitamins and supplements'', ''1000 IU once daily''))"

text \<open>
  The call takes the caller's list object \<^verbatim>\<open>all_medications\<close> and shuffles it in place, so
  the model returns two values: the returned \<^verbatim>\<open>assigned_meds\<close>, and the contents of the
  caller's list after the call.
\<close>

definition assign_medications_by_conditions ::
  "string list \<Rightarrow> medication list \<Rightarrow> nat list \<Rightarrow> (nat \<Rightarrow> real) \<Rightarrow> medication list \<times> medication list"
  where
  "assign_medications_by_conditions conditions all_medications perm rnd =
     (let f = condition_flags conditions;
          all_medications = py_shuffle all_medications perm;
          assigned_meds = fst (assign_loop f rnd all_medications ([], Map.empty, 0));
          assigned_meds = (if assigned_meds = [] then assigned_meds @ [default_medication f]
                           else assigned_meds)
      in (assigned_meds, all_medications))"

text \<open>
  The main loop passes the one module-level list \<^verbatim>\<open>ALL_MEDS_WITH_DOSAGES\<close> to every
  patient's call: each call receives the list as the call before left it. A patient is given
  here by the condition list and the draws of the call.
\<close>

fun main_medications ::
  "(string list \<times> nat list \<times> (nat \<Rightarrow> real)) list \<Rightarrow> medication list \<Rightarrow> medication list list" where
  "main_medications [] ALL_MEDS_WITH_DOSAGES = []"
| "main_medications ((patient_conditions, perm, rnd) # rest) ALL_MEDS_WITH_DOSAGES =
     (case assign_medications_by_conditions patient_conditions ALL_MEDS_WITH_DOSAGES perm rnd of
        (assigned_medications, ALL_MEDS_WITH_DOSAGES') \<Rightarrow>
          assigned_medications # main_medications rest ALL_MEDS_WITH_DOSAGES')"

section \<open>The documented threshold tables\<close>

text \<open>
  The tables as the specification words them, to compare the stored labels with. Glucose:
  pre-meal below 4.0, 4.0 to 7.0, above 7.0; two hours after a meal below 5.0, 5.0 to 10.0,
  above 10.0; no table is documented for another measurement type. Blood pressure: four bands
  cut at three thresholds (systolic 90, 120, 140; diastolic 60, 80, 90).
\<close>

definition documented_glucose_range :: "real \<Rightarrow> string \<Rightarrow> string option" where
  "documented_glucose_range glucose measurement_type =
     (if measurement_type = ''Pre meal'' then
        Some (if glucose < 4.0 then ''below range''
              else if glucose \<le> 7.0 then ''in range'' else ''above range'')
      else if measurement_type = ''2-hour post meal'' then
        Some (if glucose < 5.0 then ''below range''
              else if glucose \<le> 10.0 then ''in range'' else ''above range'')
      else None)"

definition documented_band :: "int \<Rightarrow> int \<Rightarrow> int \<Rightarrow> int \<Rightarrow> string" where
  "documented_band low ideal pre v =
     (if v < low then ''Low blood pressure''
      else if v \<le> ideal then ''Ideal''
      else if v \<le> pre then ''Pre-high blood pressure''
      else ''High blood pressure'')"

section \<open>Example draws\<close>

text \<open>Concrete draws, used where a statement is evaluated on an input.\<close>

definition example_bp_draws :: bp_draws where
  "example_bp_draws =
     \<lparr>bp_count_draw = 0.6, bp_time_draws = (\<lambda>k. (7 + 3 * k, 15)),
      bp_normal_draws = (\<lambda>i. if i = 0 then (131.7, 88.2) else (95.3, 91.9))\<rparr>"

definition example_glucose_draws :: glucose_draws where
  "example_glucose_draws =
     \<lparr>glucose_count_draw = 0.95, glucose_time_draws = (\<lambda>k. (9 + 2 * k, 40)),
      glucose_slot_draws = (\<lambda>i. if i = 0 then (0, 6.52) else (1, 10.37))\<rparr>"

definition example_day_draws :: day_draws where
  "example_day_draws = \<lparr>day_bp_draws = example_bp_draws, day_glucose_draws = example_glucose_draws\<rparr>"

definition example_exercise_draws :: exercise_draws where
  "example_exercise_draws =
     \<lparr>exercise_count_draw = 0.8, total_minutes_draw = 5, exercise_sample_draw = [0, 1, 2],
      split_draws = (\<lambda>k. 3)\<rparr>"

definition example_condition_draws :: condition_draws where
  "example_condition_draws =
     \<lparr>prevalence_draws = (\<lambda>k. 0.99), condition_sample_draw = [2, 0], condition_choice_draw = 7\<rparr>"

definition example_catalog :: "medication list" where
  "example_catalog =
     [(''Lisinopril'', ''Prescribed'', ''Heart health and hypertension'', ''10 mg once daily''),
      (''Amlodipine'', ''Prescribed'', ''Heart health and hypertension'', ''5 mg once daily''),
      (''Metoprolol'', ''Prescribed'', ''Heart health and hypertension'', ''50 mg twice daily'')]"

section \<open>Category counts\<close>

text \<open>
  The medications of a list that share a category, and the invariant of the assignment loop:
  \<^verbatim>\<open>category_counts\<close> holds, for every category, the number of assigned medications of
  that category, and that number is at most 2.
\<close>

definition in_category :: "string \<Rightarrow> medication list \<Rightarrow> medication list" where
  "in_category c meds = filter (\<lambda>m. med_category m = c) meds"

definition counts_agree :: "(string \<rightharpoonup> nat) \<Rightarrow> medication list \<Rightarrow> bool" where
  "counts_agree category_counts assigned_meds =
     (\<forall>c. count_of category_counts c = length (in_category c assigned_meds) \<and>
          length (in_category c assigned_meds) \<le> 2)"

section \<open>Blood-pressure ordering\<close>

lemma bp_slot_gap:
  "i < n \<Longrightarrow> bp_slot n nd i = (s, d, st, dt) \<Longrightarrow> 10 \<le> s - d"
  by (auto simp: bp_slot_def Let_def split: prod.splits if_splits)

lemma bp_fields_nth:
  assumes "i < 4" and "bp_slot (bp_num_readings d) (bp_normal_draws d) i = (s, dd, st, dt)"
  shows "systolic_readings (generate_blood_pressure_readings True d) ! i = s"
    and "diastolic_readings (generate_blood_pressure_readings True d) ! i = dd"
    and "systolic_types (generate_blood_pressure_readings True d) ! i = st"
    and "diastolic_types (generate_blood_pressure_readings True d) ! i = dt"
  using assms by (simp_all add: generate_blood_pressure_readings_def Let_def)

text \<open>
  Claim C1. In every blood-pressure slot that is populated (its index is below the sampled
  reading count), the stored systolic value exceeds the stored diastolic value by at least 10,
  whatever the two normal draws are.
\<close>

theorem bp_ordering:
  assumes "has_condition" and "i < bp_num_readings d" and "i < 4"
  shows "systolic_readings (generate_blood_pressure_readings has_condition d) ! i
         - diastolic_readings (generate_blood_pressure_readings has_condition d) ! i \<ge> 10"
proof -
  obtain s dd st dt where sl: "bp_slot (bp_num_readings d) (bp_normal_draws d) i = (s, dd, st, dt)"
    by (metis prod_cases4)
  have "10 \<le> s - dd" using bp_slot_gap[OF assms(2) sl] .
  then show ?thesis
    using assms(1) bp_fields_nth(1,2)[OF assms(3) sl] by simp
qed

lemma example_bp_num: "bp_num_readings example_bp_draws = 2"
  by (simp add: bp_num_readings_def example_bp_draws_def np_random_choice_def
      reading_count_values_def reading_count_weights_def)

lemma example_bp_slot0:
  "bp_slot 2 (bp_normal_draws example_bp_draws) 0 = (131, 88, ''Pre-high blood pressure'', ''Pre-high blood pressure'')"
  by (simp add: bp_slot_def example_bp_draws_def py_int_def get_bp_type_def)

lemma example_bp_slot1:
  "bp_slot 2 (bp_normal_draws example_bp_draws) 1 = (95, 85, ''Ideal'', ''Pre-high blood pressure'')"
  by (simp add: bp_slot_def example_bp_draws_def py_int_def get_bp_type_def)

theorem bp_ordering_witness:
  "1 < bp_num_readings example_bp_draws \<and> (1::nat) < 4 \<and>
   systolic_readings (generate_blood_pressure_readings True example_bp_draws) ! 1 = 95 \<and>
   diastolic_readings (generate_blood_pressure_readings True example_bp_draws) ! 1 = 85 \<and>
   systolic_readings (generate_blood_pressure_readings True example_bp_draws) ! 1
     - diastolic_readings (generate_blood_pressure_readings True example_bp_draws) ! 1 \<ge> 10"
proof -
  have n: "1 < bp_num_readings example_bp_draws" by (simp add: example_bp_num)
  have sl: "bp_slot (bp_num_readings example_bp_draws) (bp_normal_draws example_bp_draws) 1
            = (95, 85, ''Ideal'', ''Pre-high blood pressure'')"
    using example_bp_slot1 by (simp add: example_bp_num)
  have four: "(1::nat) < 4" by simp
  show ?thesis
    using n bp_ordering[OF TrueI n four] bp_fields_nth(1,2)[OF four sl] by simp
qed

section \<open>Gating by condition\<close>

lemma bp_gated_off:
  "BP (generate_day False False dia date d) =
     replicate 4 \<lparr>Systolic = 0, Diastolic = 0, Systolic_Type = [], Diastolic_Type = [], BP_Time = []\<rparr>"
  by (simp add: generate_day_def generate_blood_pressure_readings_def Let_def numeral_eq_Suc upt_rec)

lemma glucose_gated_off:
  "Glucose_Slots (generate_day hyp heart False date d) =
     replicate 4 \<lparr>Glucose = 0, Glucose_Measurement_Type = [], Glucose_Range = [], Glucose_Time = []\<rparr>"
  by (simp add: generate_day_def generate_glucose_readings_def Let_def numeral_eq_Suc upt_rec)

text \<open>
  Claim C2. For a patient with neither Hypertension nor Ischemic heart disease, on every
  generated day all four blood-pressure slots are zero with empty type and timestamp fields;
  for a patient without Diabetes, on every generated day all four glucose slots are zero with
  empty measurement type, range and timestamp fields.
\<close>

theorem gating:
  "(''Hypertension'' \<notin> set conditions \<and> ''Ischemic heart disease'' \<notin> set conditions \<longrightarrow>
      (\<forall>day \<in> set (generate_patient_data conditions date_range draws).
         BP day = replicate 4 \<lparr>Systolic = 0, Diastolic = 0, Systolic_Type = [],
                                Diastolic_Type = [], BP_Time = []\<rparr>)) \<and>
   (''Diabetes'' \<notin> set conditions \<longrightarrow>
      (\<forall>day \<in> set (generate_patient_data conditions date_range draws).
         Glucose_Slots day = replicate 4 \<lparr>Glucose = 0, Glucose_Measurement_Type = [],
                                           Glucose_Range = [], Glucose_Time = []\<rparr>))"
  by (auto simp: generate_patient_data_def Let_def bp_gated_off glucose_gated_off)

theorem gating_witness:
  "''Hypertension'' \<notin> set [''Osteoarthritis'', ''Osteoporosis''] \<and>
   ''Ischemic heart disease'' \<notin> set [''Osteoarthritis'', ''Osteoporosis''] \<and>
   ''Diabetes'' \<notin> set [''Osteoarthritis'', ''Osteoporosis''] \<and>
   map BP (generate_patient_data [''Osteoarthritis'', ''Osteoporosis'']
             [''2024-07-01'', ''2024-07-02''] (\<lambda>k. example_day_draws)) =
     [replicate 4 \<lparr>Systolic = 0, Diastolic = 0, Systolic_Type = [], Diastolic_Type = [], BP_Time = []\<rparr>,
      replicate 4 \<lparr>Systolic = 0, Diastolic = 0, Systolic_Type = [], Diastolic_Type = [], BP_Time = []\<rparr>] \<and>
   map Glucose_Slots (generate_patient_data [''Osteoarthritis'', ''Osteoporosis'']
             [''2024-07-01'', ''2024-07-02''] (\<lambda>k. example_day_draws)) =
     [replicate 4 \<lparr>Glucose = 0, Glucose_Measurement_Type = [], Glucose_Range = [], Glucose_Time = []\<rparr>,
      replicate 4 \<lparr>Glucose = 0, Glucose_Measurement_Type = [], Glucose_Range = [], Glucose_Time = []\<rparr>]"
  using gating[of "[''Osteoarthritis'', ''Osteoporosis'']" "[''2024-07-01'', ''2024-07-02'']"
      "\<lambda>k. example_day_draws"]
  by (simp add: generate_patient_data_def Let_def)

section \<open>Agreement with the threshold tables\<close>

lemma glucose_fields_nth:
  assumes "i < 4" and "glucose_slot (glucose_num_readings d) (glucose_slot_draws d) i = (g, t, r)"
  shows "glucose_values (generate_glucose_readings True d) ! i = g"
    and "measurement_types (generate_glucose_readings True d) ! i = t"
    and "glucose_ranges (generate_glucose_readings True d) ! i = r"
  using assms by (simp_all add: generate_glucose_readings_def Let_def)

lemma py_choice_pair: "py_choice [a, b] r = a \<or> py_choice [a, b] r = b"
proof -
  have "length [a, b] = 2" by simp
  then have e: "py_choice [a, b] r = [a, b] ! (r mod 2)"
    by (simp only: py_choice_def randbelow_def)
  have "r mod 2 = 0 \<or> r mod 2 = 1" by arith
  then show ?thesis
  proof
    assume "r mod 2 = 0"
    then have "py_choice [a, b] r = [a, b] ! 0" by (simp only: e)
    then show ?thesis by simp
  next
    assume "r mod 2 = 1"
    then have "py_choice [a, b] r = [a, b] ! 1" by (simp only: e)
    then show ?thesis by simp
  qed
qed

lemma glucose_slot_populated:
  assumes "i < n" and "glucose_slot n sd i = (g, t, r)"
  shows "t = py_choice [''Pre meal'', ''2-hour post meal''] (fst (sd i))"
    and "r = get_glucose_range g t"
  using assms unfolding glucose_slot_def Let_def by auto

lemma glucose_slot_documented:
  assumes "i < n" and "glucose_slot n sd i = (g, t, r)"
  shows "documented_glucose_range g t = Some r"
proof -
  have "t = ''Pre meal'' \<or> t = ''2-hour post meal''"
    unfolding glucose_slot_populated(1)[OF assms] by (rule py_choice_pair)
  then show ?thesis
  proof
    assume "t = ''Pre meal''"
    then show ?thesis
      unfolding glucose_slot_populated(2)[OF assms]
      by (simp add: documented_glucose_range_def get_glucose_range_def)
  next
    assume "t = ''2-hour post meal''"
    then show ?thesis
      unfolding glucose_slot_populated(2)[OF assms]
      by (simp add: documented_glucose_range_def get_glucose_range_def)
  qed
qed

lemma bp_slot_populated:
  assumes "i < n" and "bp_slot n nd i = (s, d, st, dt)"
  shows "get_bp_type s d = (st, dt)"
  using assms unfolding bp_slot_def Let_def by (auto split: prod.splits)

lemma get_bp_type_documented:
  "get_bp_type s d = (documented_band 90 120 140 s, documented_band 60 80 90 d)"
  by (simp add: get_bp_type_def documented_band_def)

lemma bp_slot_documented:
  assumes "i < n" and "bp_slot n nd i = (s, d, st, dt)"
  shows "st = documented_band 90 120 140 s" and "dt = documented_band 60 80 90 d"
  using bp_slot_populated[OF assms] unfolding get_bp_type_documented by simp_all

text \<open>
  Claim C6. The stored range label agrees with the documented threshold table: pre-meal
  glucose below 4.0 is below range, from 4.0 to 7.0 inclusive in range, above 7.0 above range;
  two hours after a meal the thresholds are 5.0 and 10.0; glucose 6.5 pre-meal is in range and
  7.5 pre-meal is above range; the blood-pressure bands follow the systolic thresholds
  90/120/140 and the diastolic thresholds 60/80/90. This holds of the classifiers and of the
  values and labels stored in every populated slot.
\<close>

theorem range_classification:
  "get_glucose_range g ''Pre meal'' =
     (if g < 4.0 then ''below range'' else if g \<le> 7.0 then ''in range'' else ''above range'') \<and>
   get_glucose_range g ''2-hour post meal'' =
     (if g < 5.0 then ''below range'' else if g \<le> 10.0 then ''in range'' else ''above range'') \<and>
   get_glucose_range 6.5 ''Pre meal'' = ''in range'' \<and>
   get_glucose_range 7.5 ''Pre meal'' = ''above range'' \<and>
   get_bp_type s d = (documented_band 90 120 140 s, documented_band 60 80 90 d) \<and>
   (i < glucose_num_readings gd \<and> i < 4 \<longrightarrow>
     documented_glucose_range (glucose_values (generate_glucose_readings True gd) ! i)
        (measurement_types (generate_glucose_readings True gd) ! i)
       = Some (glucose_ranges (generate_glucose_readings True gd) ! i)) \<and>
   (j < bp_num_readings bd \<and> j < 4 \<longrightarrow>
     systolic_types (generate_blood_pressure_readings True bd) ! j
       = documented_band 90 120 140 (systolic_readings (generate_blood_pressure_readings True bd) ! j) \<and>
     diastolic_types (generate_blood_pressure_readings True bd) ! j
       = documented_band 60 80 90 (diastolic_readings (generate_blood_pressure_readings True bd) ! j))"
proof (intro conjI impI)
  show "get_glucose_range g ''Pre meal'' =
     (if g < 4.0 then ''below range'' else if g \<le> 7.0 then ''in range'' else ''above range'')"
    by (simp add: get_glucose_range_def)
  show "get_glucose_range g ''2-hour post meal'' =
     (if g < 5.0 then ''below range'' else if g \<le> 10.0 then ''in range'' else ''above range'')"
    by (simp add: get_glucose_range_def)
  show "get_glucose_range 6.5 ''Pre meal'' = ''in range''"
    by (simp add: get_glucose_range_def)
  show "get_glucose_range 7.5 ''Pre meal'' = ''above range''"
    by (simp add: get_glucose_range_def)
  show "get_bp_type s d = (documented_band 90 120 140 s, documented_band 60 80 90 d)"
    by (simp add: get_bp_type_def documented_band_def)
next
  assume "i < glucose_num_readings gd \<and> i < 4"
  then have n: "i < glucose_num_readings gd" and f: "i < 4" by simp_all
  obtain g t r where sl: "glucose_slot (glucose_num_readings gd) (glucose_slot_draws gd) i = (g, t, r)"
    by (metis prod_cases3)
  show "documented_glucose_range (glucose_values (generate_glucose_readings True gd) ! i)
        (measurement_types (generate_glucose_readings True gd) ! i)
       = Some (glucose_ranges (generate_glucose_readings True gd) ! i)"
    using glucose_fields_nth[OF f sl] glucose_slot_documented[OF n sl] by simp
next
  assume "j < bp_num_readings bd \<and> j < 4"
  then have n: "j < bp_num_readings bd" and f: "j < 4" by simp_all
  obtain s dd st dt where sl: "bp_slot (bp_num_readings bd) (bp_normal_draws bd) j = (s, dd, st, dt)"
    by (metis prod_cases4)
  show "systolic_types (generate_blood_pressure_readings True bd) ! j
       = documented_band 90 120 140 (systolic_readings (generate_blood_pressure_readings True bd) ! j)"
    using bp_fields_nth[OF f sl] bp_slot_documented[OF n sl] by simp
  show "diastolic_types (generate_blood_pressure_readings True bd) ! j
       = documented_band 60 80 90 (diastolic_readings (generate_blood_pressure_readings True bd) ! j)"
    using bp_fields_nth[OF f sl] bp_slot_documented[OF n sl] by simp
qed

lemma example_glucose_num: "glucose_num_readings example_glucose_draws = 4"
  by (simp add: glucose_num_readings_def example_glucose_draws_def np_random_choice_def
      reading_count_values_def reading_count_weights_def)

lemma example_glucose_slot0:
  "glucose_slot 4 (glucose_slot_draws example_glucose_draws) 0 = (6.5, ''Pre meal'', ''in range'')"
  by (simp add: glucose_slot_def example_glucose_draws_def py_choice_def randbelow_def
      py_round1_def round_half_even_def np_clip_def get_glucose_range_def Let_def)

theorem range_classification_witness:
  "0 < glucose_num_readings example_glucose_draws \<and> (0::nat) < 4 \<and>
   glucose_values (generate_glucose_readings True example_glucose_draws) ! 0 = 6.5 \<and>
   measurement_types (generate_glucose_readings True example_glucose_draws) ! 0 = ''Pre meal'' \<and>
   glucose_ranges (generate_glucose_readings True example_glucose_draws) ! 0 = ''in range'' \<and>
   documented_glucose_range 6.5 ''Pre meal'' = Some ''in range'' \<and>
   1 < bp_num_readings example_bp_draws \<and> (1::nat) < 4 \<and>
   systolic_readings (generate_blood_pressure_readings True example_bp_draws) ! 1 = 95 \<and>
   systolic_types (generate_blood_pressure_readings True example_bp_draws) ! 1 = ''Ideal'' \<and>
   documented_band 90 120 140 95 = ''Ideal'' \<and>
   diastolic_readings (generate_blood_pressure_readings True example_bp_draws) ! 1 = 85 \<and>
   diastolic_types (generate_blood_pressure_readings True example_bp_draws) ! 1 =
     ''Pre-high blood pressure'' \<and>
   documented_band 60 80 90 85 = ''Pre-high blood pressure''"
proof -
  have gn: "0 < glucose_num_readings example_glucose_draws" by (simp add: example_glucose_num)
  have gsl: "glucose_slot (glucose_num_readings example_glucose_draws)
               (glucose_slot_draws example_glucose_draws) 0 = (6.5, ''Pre meal'', ''in range'')"
    by (simp add: example_glucose_num example_glucose_slot0)
  have g4: "(0::nat) < 4" by simp
  have bn: "1 < bp_num_readings example_bp_draws" by (simp add: example_bp_num)
  have bsl: "bp_slot (bp_num_readings example_bp_draws) (bp_normal_draws example_bp_draws) 1
            = (95, 85, ''Ideal'', ''Pre-high blood pressure'')"
    using example_bp_slot1 by (simp add: example_bp_num)
  have b4: "(1::nat) < 4" by simp
  show ?thesis
    using range_classification[of _ _ _ 0 example_glucose_draws 1 example_bp_draws]
      gn bn glucose_fields_nth[OF g4 gsl] bp_fields_nth[OF b4 bsl]
    by simp
qed

section \<open>Reading counts\<close>

lemma reading_count_buckets:
  assumes "unit_draw u"
  shows "np_random_choice reading_count_values reading_count_weights u =
           (if u < 0.516 then 1 else if u < 0.774 then 2 else if u < 0.903 then 3 else 4)"
  using assms
  by (simp add: np_random_choice_def reading_count_values_def reading_count_weights_def
      unit_draw_def)

text \<open>
  Claim C7, as amended. For blood pressure and for glucose the number of readings is drawn
  from 1, 2, 3, 4 with the weights 0.516, 0.258, 0.129, 0.097: the first three are those of
  the exponential-decay weighting used for exercise counts, the fourth is that weighting's
  fourth and fifth weights together (0.065 + 0.032), so the weights sum to 1 and a 4-reading
  day has weight 0.097. A uniform draw below 0.516 gives 1 reading, below 0.774 two, below
  0.903 three, and 4 otherwise.
\<close>

theorem reading_count_distribution:
  "reading_count_values = [1, 2, 3, 4] \<and>
   take 3 reading_count_weights = take 3 exercise_probs \<and>
   reading_count_weights ! 3 = exercise_probs ! 3 + exercise_probs ! 4 \<and>
   reading_count_weights ! 3 = 0.097 \<and>
   sum_list reading_count_weights = 1 \<and>
   (unit_draw (bp_count_draw b) \<longrightarrow>
      bp_num_readings b =
        (if bp_count_draw b < 0.516 then 1 else if bp_count_draw b < 0.774 then 2
         else if bp_count_draw b < 0.903 then 3 else 4)) \<and>
   (unit_draw (glucose_count_draw g) \<longrightarrow>
      glucose_num_readings g =
        (if glucose_count_draw g < 0.516 then 1 else if glucose_count_draw g < 0.774 then 2
         else if glucose_count_draw g < 0.903 then 3 else 4))"
  by (simp add: reading_count_buckets bp_num_readings_def glucose_num_readings_def)
    (simp add: reading_count_values_def reading_count_weights_def exercise_probs_def)

theorem reading_count_distribution_witness:
  "unit_draw (bp_count_draw example_bp_draws) \<and> bp_num_readings example_bp_draws = 2 \<and>
   unit_draw (glucose_count_draw example_glucose_draws) \<and>
   glucose_num_readings example_glucose_draws = 4"
  using reading_count_distribution[of example_bp_draws example_glucose_draws]
  by (simp add: example_bp_draws_def example_glucose_draws_def unit_draw_def)

text \<open>
  The claim as stated fails: the weight of a 4-reading day is 0.097, not about 0.065, and the
  draw 0.97 gives 4 readings where the exercise weighting gives its fifth value.
\<close>

theorem four_readings_weight_counterexample:
  "reading_count_weights ! 3 = 0.097 \<and>
   exercise_probs ! 3 = 0.065 \<and>
   \<not> \<bar>reading_count_weights ! 3 - 0.065\<bar> < 0.03 \<and>
   unit_draw 0.97 \<and>
   bp_num_readings (example_bp_draws\<lparr>bp_count_draw := 0.97\<rparr>) = 4 \<and>
   glucose_num_readings (example_glucose_draws\<lparr>glucose_count_draw := 0.97\<rparr>) = 4 \<and>
   np_random_choice [1, 2, 3, 4, 5::nat] exercise_probs 0.97 = 5"
  by (simp add: reading_count_weights_def exercise_probs_def unit_draw_def bp_num_readings_def
      glucose_num_readings_def np_random_choice_def reading_count_values_def)

section \<open>Exercise budget\<close>

lemma num_exercises_buckets:
  assumes "unit_draw (exercise_count_draw d)"
  shows "num_exercises_of d =
           (if exercise_count_draw d < 0.516 then 1 else if exercise_count_draw d < 0.774 then 2
            else if exercise_count_draw d < 0.903 then 3
            else if exercise_count_draw d < 0.968 then 4 else 5)"
  using assms
  by (simp add: num_exercises_of_def np_random_choice_def exercise_probs_def unit_draw_def)

lemma num_exercises_range:
  assumes "unit_draw (exercise_count_draw d)"
  shows "1 \<le> num_exercises_of d" and "num_exercises_of d \<le> 5"
  unfolding num_exercises_buckets[OF assms] by simp_all

lemma total_minutes_range: "5 \<le> total_minutes_of d" "total_minutes_of d \<le> 29"
  by (simp_all add: total_minutes_of_def py_randint_def randbelow_def)

lemma telescope:
  fixes xs :: "int list"
  shows "sum_list (map (\<lambda>i. xs ! (i + 1) - xs ! i) [0..<n]) = xs ! n - xs ! 0"
  by (induction n) simp_all

lemma length_exercise_minutes:
  "1 \<le> n \<Longrightarrow> length (exercise_minutes_of n t sd) = n"
  by (simp add: exercise_minutes_of_def Let_def)

lemma sum_exercise_minutes:
  assumes "1 \<le> n"
  shows "sum_list (exercise_minutes_of n t sd) = t"
proof (cases "n = 1")
  case True
  then show ?thesis by (simp add: exercise_minutes_of_def)
next
  case False
  define ys where "ys = sort (map (\<lambda>k. py_randint 1 (t - 1) (sd k)) [0..<n - 1])"
  define xs where "xs = [0] @ ys @ [t]"
  have len: "length ys = n - 1" by (simp add: ys_def)
  have "xs ! n = (ys @ [t]) ! (n - 1)"
    using assms by (simp add: xs_def nth_Cons')
  then have last: "xs ! n = t"
    using len by (simp add: nth_append)
  have first: "xs ! 0 = 0" by (simp add: xs_def)
  have "exercise_minutes_of n t sd = map (\<lambda>i. xs ! (i + 1) - xs ! i) [0..<n]"
    using False by (simp add: exercise_minutes_of_def Let_def xs_def ys_def)
  then show ?thesis
    using telescope[of xs n] last first by simp
qed

lemma slots_take:
  assumes "n \<le> 5"
  shows "take n [f 0, f 1, f 2, f 3, f (4::nat)] = map f [0..<n]"
proof -
  have "[f 0, f 1, f 2, f 3, f 4] = map f [0..<5]"
    by (simp add: numeral_eq_Suc upt_rec)
  then show ?thesis
    using assms by (simp add: take_map)
qed

lemma slots_drop:
  assumes "n \<le> 5"
  shows "drop n [f 0, f 1, f 2, f 3, f (4::nat)] = map f [n..<5]"
proof -
  have "[f 0, f 1, f 2, f 3, f 4] = map f [0..<5]"
    by (simp add: numeral_eq_Suc upt_rec)
  then show ?thesis
    using assms by (simp add: drop_map)
qed

lemma populated_minutes:
  assumes "exercise_draws_ok d"
  shows "map Exercise_Minutes (take (num_exercises_of d) (generate_exercise_data d)) =
           exercise_minutes_of (num_exercises_of d) (total_minutes_of d) (split_draws d)"
proof -
  let ?n = "num_exercises_of d"
  let ?m = "exercise_minutes_of ?n (total_minutes_of d) (split_draws d)"
  have u: "unit_draw (exercise_count_draw d)" and sel: "length (exercise_sample_draw d) = ?n"
    using assms by (simp_all add: exercise_draws_ok_def sample_positions_def)
  have n5: "?n \<le> 5" and n1: "1 \<le> ?n" using num_exercises_range[OF u] by simp_all
  have lm: "length ?m = ?n" using length_exercise_minutes[OF n1] .
  have "map Exercise_Minutes (take ?n (generate_exercise_data d)) = map (\<lambda>k. ?m ! k) [0..<?n]"
    unfolding generate_exercise_data_def Let_def slots_take[OF n5]
    by (simp add: py_sample_def sel exercise_slot_at_def)
  also have "\<dots> = ?m"
    using lm by (metis map_nth)
  finally show ?thesis .
qed

lemma unused_slots:
  assumes "exercise_draws_ok d"
  shows "drop (num_exercises_of d) (generate_exercise_data d) =
           replicate (5 - num_exercises_of d) unused_slot"
proof -
  let ?n = "num_exercises_of d"
  have u: "unit_draw (exercise_count_draw d)" and sel: "length (exercise_sample_draw d) = ?n"
    using assms by (simp_all add: exercise_draws_ok_def sample_positions_def)
  have n5: "?n \<le> 5" using num_exercises_range[OF u] by simp
  have "drop ?n (generate_exercise_data d) = map (\<lambda>k. unused_slot) [?n..<5]"
    unfolding generate_exercise_data_def Let_def slots_drop[OF n5]
    by (simp add: py_sample_def sel unused_slot_def exercise_slot_at_def)
  then show ?thesis
    by (simp add: map_replicate_const)
qed

text \<open>
  Claim C5. For every day's exercise generation the sampled total is an integer from 5 to 29,
  the minutes of the populated slots (the first \<open>num_exercises\<close> slots) sum exactly to that
  total, and every slot beyond the sampled count has 0 minutes and an empty type.
\<close>

theorem exercise_budget:
  assumes "exercise_draws_ok d"
  shows "5 \<le> total_minutes_of d \<and> total_minutes_of d \<le> 29 \<and>
         1 \<le> num_exercises_of d \<and> num_exercises_of d \<le> 5 \<and>
         length (generate_exercise_data d) = 5 \<and>
         sum_list (map Exercise_Minutes (take (num_exercises_of d) (generate_exercise_data d)))
           = total_minutes_of d \<and>
         drop (num_exercises_of d) (generate_exercise_data d)
           = replicate (5 - num_exercises_of d) unused_slot"
proof -
  have u: "unit_draw (exercise_count_draw d)"
    using assms by (simp add: exercise_draws_ok_def)
  have "length (generate_exercise_data d) = 5"
    by (simp add: generate_exercise_data_def Let_def)
  moreover have "sum_list (map Exercise_Minutes (take (num_exercises_of d) (generate_exercise_data d)))
           = total_minutes_of d"
    unfolding populated_minutes[OF assms]
    by (rule sum_exercise_minutes) (rule num_exercises_range(1)[OF u])
  ultimately show ?thesis
    using total_minutes_range[of d] num_exercises_range[OF u] unused_slots[OF assms] by simp
qed

lemma example_exercise_ok: "exercise_draws_ok example_exercise_draws"
  by (simp add: exercise_draws_ok_def example_exercise_draws_def unit_draw_def
      sample_positions_def num_exercises_of_def np_random_choice_def exercise_probs_def
      EXERCISE_TYPES_def)

lemma example_exercise_num: "num_exercises_of example_exercise_draws = 3"
  by (simp add: example_exercise_draws_def num_exercises_of_def np_random_choice_def
      exercise_probs_def)

lemma example_exercise_total: "total_minutes_of example_exercise_draws = 10"
  by (simp add: example_exercise_draws_def total_minutes_of_def py_randint_def randbelow_def)

lemma example_exercise_minutes:
  "exercise_minutes_of 3 10 (split_draws example_exercise_draws) = [4, 0, 6]"
  by code_simp

lemma example_exercise_data:
  "generate_exercise_data example_exercise_draws =
     [\<lparr>Exercise_Type = ''walking'', Exercise_Minutes = 4, Exercise_Category = ''walking''\<rparr>,
      \<lparr>Exercise_Type = ''swimming'', Exercise_Minutes = 0, Exercise_Category = ''swimming''\<rparr>,
      \<lparr>Exercise_Type = ''running'', Exercise_Minutes = 6, Exercise_Category = ''running''\<rparr>,
      unused_slot, unused_slot]"
  unfolding generate_exercise_data_def Let_def example_exercise_num example_exercise_total
    example_exercise_minutes
  by (simp add: exercise_slot_at_def py_sample_def example_exercise_draws_def EXERCISE_TYPES_def
      unused_slot_def)

theorem exercise_budget_witness:
  "exercise_draws_ok example_exercise_draws \<and>
   total_minutes_of example_exercise_draws = 10 \<and>
   num_exercises_of example_exercise_draws = 3 \<and>
   map Exercise_Minutes (take 3 (generate_exercise_data example_exercise_draws)) = [4, 0, 6] \<and>
   sum_list (map Exercise_Minutes (take 3 (generate_exercise_data example_exercise_draws))) = 10 \<and>
   drop 3 (generate_exercise_data example_exercise_draws) = [unused_slot, unused_slot]"
  using exercise_budget[OF example_exercise_ok]
  by (simp add: example_exercise_ok example_exercise_num example_exercise_total
      example_exercise_data)

section \<open>Populated slots with zero minutes\<close>

lemma exercise_type_nonempty: "i < length EXERCISE_TYPES \<Longrightarrow> EXERCISE_TYPES ! i \<noteq> []"
proof -
  have "\<forall>x \<in> set EXERCISE_TYPES. x \<noteq> []" by (simp add: EXERCISE_TYPES_def)
  then show "i < length EXERCISE_TYPES \<Longrightarrow> EXERCISE_TYPES ! i \<noteq> []"
    using nth_mem by blast
qed

lemma sorted_duplicate_adjacent:
  fixes ys :: "int list"
  assumes "sorted ys" and "\<not> distinct ys"
  shows "\<exists>i. Suc i < length ys \<and> ys ! i = ys ! Suc i"
proof -
  have "\<not> sorted_wrt (<) ys"
    using assms by (simp add: strict_sorted_iff)
  then obtain i where i: "Suc i < length ys" and n: "\<not> ys ! i < ys ! Suc i"
    using sorted_wrt_iff_nth_Suc_transp[of "(<) :: int \<Rightarrow> int \<Rightarrow> bool" ys] by auto
  have "ys ! i \<le> ys ! Suc i"
    using assms(1) i by (simp add: sorted_iff_nth_Suc)
  with n i show ?thesis by auto
qed

lemma slot_nth:
  assumes "k < 5"
  shows "[f 0, f 1, f 2, f 3, f (4::nat)] ! k = f k"
proof -
  have "[f 0, f 1, f 2, f 3, f 4] = map f [0..<5]"
    by (simp add: numeral_eq_Suc upt_rec)
  then show ?thesis using assms by simp
qed

lemma coinciding_split_points:
  assumes ok: "exercise_draws_ok d"
    and ab: "a < b" "b < num_exercises_of d - 1"
    and eq: "py_randint 1 (total_minutes_of d - 1) (split_draws d a) =
             py_randint 1 (total_minutes_of d - 1) (split_draws d b)"
  shows "\<exists>k. k < num_exercises_of d \<and>
           Exercise_Type (generate_exercise_data d ! k) \<noteq> [] \<and>
           Exercise_Minutes (generate_exercise_data d ! k) = 0"
proof -
  let ?n = "num_exercises_of d"
  let ?t = "total_minutes_of d"
  let ?p = "\<lambda>k. py_randint 1 (?t - 1) (split_draws d k)"
  define ps where "ps = map ?p [0..<?n - 1]"
  define ys where "ys = sort ps"
  define xs where "xs = [0] @ ys @ [?t]"
  have u: "unit_draw (exercise_count_draw d)"
    and sel: "length (exercise_sample_draw d) = ?n"
    and pos: "list_all (\<lambda>i. i < length EXERCISE_TYPES) (exercise_sample_draw d)"
    using ok by (simp_all add: exercise_draws_ok_def sample_positions_def)
  have n5: "?n \<le> 5" using num_exercises_range[OF u] by simp
  have n1: "?n \<noteq> 1" using ab by simp
  have "ps ! a = ps ! b" "a < length ps" "b < length ps" "a \<noteq> b"
    using ab eq by (simp_all add: ps_def)
  then have "\<not> distinct ps"
    using nth_eq_iff_index_eq by blast
  then have "\<not> distinct ys" by (simp add: ys_def)
  moreover have "sorted ys" by (simp add: ys_def)
  ultimately obtain i where i: "Suc i < length ys" and same: "ys ! i = ys ! Suc i"
    using sorted_duplicate_adjacent by blast
  have leny: "length ys = ?n - 1" by (simp add: ys_def ps_def)
  have k: "Suc i < ?n" using i leny by simp
  have k5: "Suc i < 5" using k n5 by simp
  have m: "exercise_minutes_of ?n ?t (split_draws d) = map (\<lambda>j. xs ! (j + 1) - xs ! j) [0..<?n]"
    using n1 by (simp add: exercise_minutes_of_def Let_def xs_def ys_def ps_def)
  have "xs ! (Suc i + 1) = ys ! Suc i" "xs ! Suc i = ys ! i"
    using i by (simp_all add: xs_def nth_append)
  then have zero: "exercise_minutes_of ?n ?t (split_draws d) ! Suc i = 0"
    using k same by (simp add: m)
  have slot: "generate_exercise_data d ! Suc i =
               exercise_slot_at (py_sample EXERCISE_TYPES (exercise_sample_draw d))
                 (exercise_minutes_of ?n ?t (split_draws d)) (Suc i)"
    unfolding generate_exercise_data_def Let_def by (rule slot_nth[OF k5])
  have "exercise_sample_draw d ! Suc i < length EXERCISE_TYPES"
    using pos k sel by (simp add: list_all_length)
  then have ty: "EXERCISE_TYPES ! (exercise_sample_draw d ! Suc i) \<noteq> []"
    by (rule exercise_type_nonempty)
  have "Exercise_Type (generate_exercise_data d ! Suc i) \<noteq> []"
    using ty k sel by (simp add: slot exercise_slot_at_def py_sample_def)
  moreover have "Exercise_Minutes (generate_exercise_data d ! Suc i) = 0"
    using zero k sel by (simp add: slot exercise_slot_at_def py_sample_def)
  ultimately show ?thesis using k by blast
qed

text \<open>
  Claim C10. For some outcomes of the draws a slot within the sampled count has a non-empty
  exercise type and 0 minutes; this happens whenever two of the random partition points
  coincide. So a zero \<^verbatim>\<open>Exercise_Minutes\<close> does not identify an unused slot.
\<close>

theorem zero_minutes_in_populated_slot:
  "(exercise_draws_ok example_exercise_draws \<and>
    1 < num_exercises_of example_exercise_draws \<and>
    Exercise_Type (generate_exercise_data example_exercise_draws ! 1) = ''swimming'' \<and>
    Exercise_Minutes (generate_exercise_data example_exercise_draws ! 1) = 0) \<and>
   (exercise_draws_ok d \<and> a < b \<and> b < num_exercises_of d - 1 \<and>
    py_randint 1 (total_minutes_of d - 1) (split_draws d a) =
      py_randint 1 (total_minutes_of d - 1) (split_draws d b) \<longrightarrow>
    (\<exists>k. k < num_exercises_of d \<and>
          Exercise_Type (generate_exercise_data d ! k) \<noteq> [] \<and>
          Exercise_Minutes (generate_exercise_data d ! k) = 0))"
  using coinciding_split_points[of d a b]
  by (simp add: example_exercise_ok example_exercise_num example_exercise_data)

theorem zero_minutes_in_populated_slot_witness:
  "exercise_draws_ok example_exercise_draws \<and> (0::nat) < 1 \<and>
   1 < num_exercises_of example_exercise_draws - 1 \<and>
   py_randint 1 (total_minutes_of example_exercise_draws - 1)
     (split_draws example_exercise_draws 0) = 4 \<and>
   py_randint 1 (total_minutes_of example_exercise_draws - 1)
     (split_draws example_exercise_draws 1) = 4 \<and>
   (\<exists>k. k < num_exercises_of example_exercise_draws \<and>
         Exercise_Type (generate_exercise_data example_exercise_draws ! k) \<noteq> [] \<and>
         Exercise_Minutes (generate_exercise_data example_exercise_draws ! k) = 0)"
proof -
  have p: "py_randint 1 (total_minutes_of example_exercise_draws - 1)
             (split_draws example_exercise_draws k) = 4" for k
    by (simp add: example_exercise_total)
      (simp add: example_exercise_draws_def py_randint_def randbelow_def)
  have n: "1 < num_exercises_of example_exercise_draws - 1"
    by (simp add: example_exercise_num)
  show ?thesis
    using zero_minutes_in_populated_slot[of example_exercise_draws 0 1] p n example_exercise_ok
    by simp
qed

section \<open>Condition floor\<close>

lemma append_new_condition:
  assumes "distinct cs \<and> set cs \<subseteq> S" and "c \<notin> S"
  shows "distinct (append_if b c cs) \<and> set (append_if b c cs) \<subseteq> insert c S"
  using assms by (auto simp: append_if_def)

lemma prevalence_conditions_distinct: "distinct (prevalence_conditions r)"
proof -
  define c1 where "c1 = append_if (r 0 < 0.657) ''Hypertension'' []"
  define c2 where "c2 = append_if (r 1 < 0.52) ''Periodontal disease'' c1"
  define c3 where "c3 = append_if (r 2 < 0.38) ''Osteoarthritis'' c2"
  define c4 where "c4 = append_if (r 3 < 0.27) ''Ischemic heart disease'' c3"
  define c5 where "c5 = append_if (r 4 < 0.268) ''Diabetes'' c4"
  define c6 where "c6 = append_if (r 5 < 0.251) ''Osteoporosis'' c5"
  define c7 where "c7 = append_if (r 6 < 0.215) ''Cancer'' c6"
  define c8 where "c8 = append_if (r 7 < 0.202) ''COPD'' c7"
  define c9 where "c9 = append_if (r 8 < 0.107) ''Asthma'' c8"
  define c10 where "c10 = append_if (r 9 < 0.105) ''Mood and/or anxiety disorder'' c9"
  have e: "prevalence_conditions r = c10"
    unfolding prevalence_conditions_def Let_def c10_def c9_def c8_def c7_def c6_def c5_def
      c4_def c3_def c2_def c1_def by (rule refl)
  have 0: "distinct ([] :: string list) \<and> set ([] :: string list) \<subseteq> {}" by simp
  have 1: "distinct c1 \<and> set c1 \<subseteq> {''Hypertension''}"
    unfolding c1_def by (rule append_new_condition[OF 0]) simp
  have 2: "distinct c2 \<and> set c2 \<subseteq> {''Periodontal disease'', ''Hypertension''}"
    unfolding c2_def by (rule append_new_condition[OF 1]) simp
  have 3: "distinct c3 \<and> set c3 \<subseteq> {''Osteoarthritis'', ''Periodontal disease'', ''Hypertension''}"
    unfolding c3_def by (rule append_new_condition[OF 2]) simp
  have 4: "distinct c4 \<and> set c4 \<subseteq> {''Ischemic heart disease'', ''Osteoarthritis'', ''Periodontal disease'', ''Hypertension''}"
    unfolding c4_def by (rule append_new_condition[OF 3]) simp
  have 5: "distinct c5 \<and> set c5 \<subseteq> {''Diabetes'', ''Ischemic heart disease'', ''Osteoarthritis'', ''Periodontal disease'', ''Hypertension''}"
    unfolding c5_def by (rule append_new_condition[OF 4]) simp
  have 6: "distinct c6 \<and> set c6 \<subseteq> {''Osteoporosis'', ''Diabetes'', ''Ischemic heart disease'', ''Osteoarthritis'', ''Periodontal disease'', ''Hypertension''}"
    unfolding c6_def by (rule append_new_condition[OF 5]) simp
  have 7: "distinct c7 \<and> set c7 \<subseteq> {''Cancer'', ''Osteoporosis'', ''Diabetes'', ''Ischemic heart disease'', ''Osteoarthritis'', ''Periodontal disease'', ''Hypertension''}"
    unfolding c7_def by (rule append_new_condition[OF 6]) simp
  have 8: "distinct c8 \<and> set c8 \<subseteq> {''COPD'', ''Cancer'', ''Osteoporosis'', ''Diabetes'', ''Ischemic heart disease'', ''Osteoarthritis'', ''Periodontal disease'', ''Hypertension''}"
    unfolding c8_def by (rule append_new_condition[OF 7]) simp
  have 9: "distinct c9 \<and> set c9 \<subseteq> {''Asthma'', ''COPD'', ''Cancer'', ''Osteoporosis'', ''Diabetes'', ''Ischemic heart disease'', ''Osteoarthritis'', ''Periodontal disease'', ''Hypertension''}"
    unfolding c9_def by (rule append_new_condition[OF 8]) simp
  have 10: "distinct c10 \<and> set c10 \<subseteq> {''Mood and/or anxiety disorder'', ''Asthma'', ''COPD'', ''Cancer'', ''Osteoporosis'', ''Diabetes'', ''Ischemic heart disease'', ''Osteoarthritis'', ''Periodontal disease'', ''Hypertension''}"
    unfolding c10_def by (rule append_new_condition[OF 9]) simp
  show ?thesis using 10 by (simp only: e)
qed

lemma sample_distinct:
  assumes "distinct population" and "sample_positions n k idxs" and "n = length population"
  shows "distinct (py_sample population idxs)" and "length (py_sample population idxs) = k"
proof -
  have d: "distinct idxs" and b: "\<forall>i \<in> set idxs. i < length population"
    and l: "length idxs = k"
    using assms(2,3) by (simp_all add: sample_positions_def list_all_iff)
  have "inj_on ((!) population) (set idxs)"
    using assms(1) b by (auto simp: inj_on_def nth_eq_iff_index_eq)
  then show "distinct (py_sample population idxs)"
    using d by (simp add: py_sample_def distinct_map)
  show "length (py_sample population idxs) = k"
    using l by (simp add: py_sample_def)
qed

lemma py_choice_mem: "seq \<noteq> [] \<Longrightarrow> py_choice seq r \<in> set seq"
  by (simp add: py_choice_def randbelow_def)

lemma single_condition_augmented:
  fixes c :: string
  defines "available \<equiv>
     filter (\<lambda>x. x \<notin> set [c])
       [''Hypertension'', ''Diabetes'', ''Osteoarthritis'', ''Osteoporosis'',
        ''Mood and/or anxiety disorder'', ''Ischemic heart disease'']"
  shows "available \<noteq> []" and "py_choice available r \<noteq> c"
proof -
  define additional :: "string list" where
    "additional = [''Hypertension'', ''Diabetes'', ''Osteoarthritis'', ''Osteoporosis'',
        ''Mood and/or anxiety disorder'', ''Ischemic heart disease'']"
  have av: "set available = {x \<in> set additional. x \<notin> set [c]}"
    unfolding available_def additional_def by (rule set_filter)
  have h: "''Hypertension'' \<in> set additional" and dia: "''Diabetes'' \<in> set additional"
    by (simp_all add: additional_def)
  have "''Hypertension'' \<noteq> c \<or> ''Diabetes'' \<noteq> c" by auto
  then have "''Hypertension'' \<in> set available \<or> ''Diabetes'' \<in> set available"
    unfolding av using h dia by simp
  then show ne: "available \<noteq> []" by auto
  have "py_choice available r \<in> set available" using ne by (rule py_choice_mem)
  then show "py_choice available r \<noteq> c" unfolding av by simp
qed

text \<open>
  Claim C3. For every outcome of the draws, the list of chronic conditions returned has at
  least 2 elements and no duplicates: when the prevalence draws yield no condition two are
  sampled, when they yield one a different one is chosen, and the function always returns.
\<close>

theorem condition_floor:
  assumes "sample_positions 4 2 (condition_sample_draw d)"
  shows "2 \<le> length (assign_conditions d) \<and> distinct (assign_conditions d)"
proof -
  let ?p = "prevalence_conditions (prevalence_draws d)"
  have dp: "distinct ?p" by (rule prevalence_conditions_distinct)
  consider (none) "length ?p = 0" | (one) "length ?p = 1" | (more) "2 \<le> length ?p"
    by linarith
  then show ?thesis
  proof cases
    case none
    let ?four = "[''Hypertension'', ''Osteoarthritis'', ''Diabetes'', ''Osteoporosis'']"
    have "distinct ?four" and "4 = length ?four" by simp_all
    from sample_distinct[OF this(1) assms this(2)] none show ?thesis
      by (simp add: assign_conditions_def Let_def)
  next
    case one
    then obtain c where c: "?p = [c]"
      by (auto simp: length_Suc_conv)
    show ?thesis
      using single_condition_augmented(1)[of c]
        single_condition_augmented(2)[of c "condition_choice_draw d"]
      by (simp add: assign_conditions_def Let_def c del: filter.simps)
  next
    case more
    then have "?p \<noteq> []" "length ?p \<noteq> Suc 0" "\<not> length ?p < 2" by auto
    then show ?thesis using dp more by (simp add: assign_conditions_def Let_def)
  qed
qed

lemma example_prevalence_none:
  "prevalence_conditions (prevalence_draws example_condition_draws) = []"
  by (simp add: prevalence_conditions_def example_condition_draws_def append_if_def)

theorem condition_floor_witness:
  "sample_positions 4 2 (condition_sample_draw example_condition_draws) \<and>
   assign_conditions example_condition_draws = [''Diabetes'', ''Hypertension''] \<and>
   2 \<le> length (assign_conditions example_condition_draws) \<and>
   distinct (assign_conditions example_condition_draws)"
proof -
  have s: "sample_positions 4 2 (condition_sample_draw example_condition_draws)"
    by (simp add: sample_positions_def example_condition_draws_def)
  have a: "assign_conditions example_condition_draws = [''Diabetes'', ''Hypertension'']"
    by (simp add: assign_conditions_def example_prevalence_none py_sample_def)
      (simp add: example_condition_draws_def)
  show ?thesis using condition_floor[OF s] s a by simp
qed

section \<open>Medication category cap\<close>

lemma counts_agree_append:
  assumes "counts_agree cc am" and "\<not> 2 \<le> count_of cc category"
  shows "counts_agree (cc(category \<mapsto> count_of cc category + 1))
           (am @ [(med, med_type, category, dosage)])"
  using assms
  by (auto simp: counts_agree_def count_of_def in_category_def med_category_def)

lemma assign_loop_counts:
  "counts_agree cc am \<Longrightarrow>
   assign_loop f rnd meds (am, cc, k) = (am', cc', k') \<Longrightarrow> counts_agree cc' am'"
proof (induction meds arbitrary: am cc k)
  case Nil
  then show ?case by simp
next
  case (Cons m meds)
  obtain med med_type category dosage where m: "m = (med, med_type, category, dosage)"
    by (metis prod_cases4)
  obtain b k1 where s: "should_assign_of f category rnd k = (b, k1)"
    by (metis surj_pair)
  show ?case
  proof (cases "2 \<le> count_of cc category")
    case True
    then show ?thesis using Cons by (simp add: m)
  next
    case False
    show ?thesis
    proof (cases "b \<and> rnd k1 < 0.9")
      case True
      have "counts_agree (cc(category \<mapsto> count_of cc category + 1))
              (am @ [(med, med_type, category, dosage)])"
        using Cons.prems(1) False by (rule counts_agree_append)
      then show ?thesis
        using Cons.IH Cons.prems(2) False True by (simp add: m s)
    next
      case False
      then show ?thesis
        using Cons.IH Cons.prems \<open>\<not> 2 \<le> count_of cc category\<close>
        by (auto simp: m s split: if_splits)
    qed
  qed
qed

lemma catalog_pass_cap:
  "length (in_category c (fst (assign_loop f rnd meds ([], Map.empty, 0)))) \<le> 2"
proof -
  obtain am cc k where r: "assign_loop f rnd meds ([], Map.empty, 0) = (am, cc, k)"
    by (metis prod_cases3)
  have "counts_agree Map.empty []"
    by (simp add: counts_agree_def count_of_def in_category_def)
  then have "counts_agree cc am" using r by (rule assign_loop_counts)
  then show ?thesis by (simp add: r counts_agree_def)
qed

text \<open>
  Claim C4. For every condition set and every catalog, the returned medication list has at
  most 2 medications of any one category and at least 1 medication, and the default
  medication is returned whenever the pass over the catalog assigns nothing.
\<close>

theorem medication_cap:
  "length (filter (\<lambda>m. med_category m = c)
      (fst (assign_medications_by_conditions conditions all_medications perm rnd))) \<le> 2 \<and>
   1 \<le> length (fst (assign_medications_by_conditions conditions all_medications perm rnd)) \<and>
   (fst (assign_loop (condition_flags conditions) rnd (py_shuffle all_medications perm)
           ([], Map.empty, 0)) = [] \<longrightarrow>
    fst (assign_medications_by_conditions conditions all_medications perm rnd) =
      [default_medication (condition_flags conditions)])"
proof -
  let ?pass = "fst (assign_loop (condition_flags conditions) rnd
                 (py_shuffle all_medications perm) ([], Map.empty, 0))"
  have r: "fst (assign_medications_by_conditions conditions all_medications perm rnd) =
             (if ?pass = [] then [default_medication (condition_flags conditions)] else ?pass)"
    by (simp add: assign_medications_by_conditions_def Let_def)
  have cap: "length (in_category c ?pass) \<le> 2" by (rule catalog_pass_cap)
  show ?thesis
  proof (cases "?pass = []")
    case True
    then show ?thesis by (simp add: r)
  next
    case False
    then have "1 \<le> length ?pass" by (cases ?pass) simp_all
    then show ?thesis using False cap by (simp add: r in_category_def)
  qed
qed

lemma example_pass_empty:
  "fst (assign_loop (condition_flags [''Diabetes'', ''Osteoporosis'']) (\<lambda>k. 0.5)
         (py_shuffle example_catalog [2, 0, 1]) ([], Map.empty, 0)) = []"
  by (simp add: py_shuffle_def example_catalog_def count_of_def should_assign_of_def
      condition_flags_def Let_def)

theorem medication_cap_witness:
  "fst (assign_loop (condition_flags [''Diabetes'', ''Osteoporosis'']) (\<lambda>k. 0.5)
         (py_shuffle example_catalog [2, 0, 1]) ([], Map.empty, 0)) = [] \<and>
   fst (assign_medications_by_conditions [''Diabetes'', ''Osteoporosis''] example_catalog
          [2, 0, 1] (\<lambda>k. 0.5)) =
     [(''Metformin'', ''Prescribed'', ''Diabetes (oral or injectable)'', ''500 mg twice daily'')]"
  using medication_cap[of _ "[''Diabetes'', ''Osteoporosis'']" example_catalog "[2, 0, 1]"
      "\<lambda>k. 0.5"] example_pass_empty
  by (simp add: default_medication_def condition_flags_def Let_def)

section \<open>Priority of the respiratory rule\<close>

lemma other_category:
  "\<not> str_in ''Heart health and hypertension'' ''Other''"
  "\<not> str_in ''Diabetes'' ''Other''"
  "\<not> str_in ''Chronic pain and musculoskeletal'' ''Other''"
  "\<not> str_in ''Mental health'' ''Other''"
  "str_in ''Other'' ''Other''"
  by simp_all

lemma respiratory_rule:
  assumes "has_respiratory f"
  shows "should_assign_of f ''Other'' rnd k = (rnd k < 0.6, k + 1)"
  using assms unfolding should_assign_of_def by (simp only: other_category simp_thms if_True if_False)

lemma cancer_rule:
  assumes "\<not> has_respiratory f" and "has_cancer f"
  shows "should_assign_of f ''Other'' rnd k = (rnd k < 0.7, k + 1)"
  using assms unfolding should_assign_of_def by (simp only: other_category simp_thms if_True if_False)

lemma flags_respiratory:
  "has_respiratory (condition_flags conditions) =
     (''COPD'' \<in> set conditions \<or> ''Asthma'' \<in> set conditions)"
  "has_cancer (condition_flags conditions) = (''Cancer'' \<in> set conditions)"
  by (simp_all add: condition_flags_def Let_def)

lemma single_candidate:
  assumes "should_assign_of f category rnd 0 = (b, 1)"
  shows "fst (assign_loop f rnd [(med, med_type, category, dosage)] ([], Map.empty, 0)) =
           (if b \<and> rnd 1 < 0.9 then [(med, med_type, category, dosage)] else [])"
  using assms by (simp add: count_of_def)

text \<open>
  Claim C9. For a patient with a respiratory condition (COPD or Asthma) and Cancer, a
  candidate of category \<^verbatim>\<open>Other\<close> is decided by the respiratory rule, with threshold 0.6;
  the cancer rule, with threshold 0.7, decides such a candidate only when the patient has no
  respiratory condition.
\<close>

theorem other_category_priority:
  "((''COPD'' \<in> set conditions \<or> ''Asthma'' \<in> set conditions) \<and> ''Cancer'' \<in> set conditions \<longrightarrow>
      should_assign_of (condition_flags conditions) ''Other'' rnd k = (rnd k < 0.6, k + 1) \<and>
      fst (assign_loop (condition_flags conditions) rnd [(med, med_type, ''Other'', dosage)]
             ([], Map.empty, 0)) =
        (if rnd 0 < 0.6 \<and> rnd 1 < 0.9 then [(med, med_type, ''Other'', dosage)] else [])) \<and>
   (''COPD'' \<notin> set conditions \<and> ''Asthma'' \<notin> set conditions \<and> ''Cancer'' \<in> set conditions \<longrightarrow>
      should_assign_of (condition_flags conditions) ''Other'' rnd k = (rnd k < 0.7, k + 1))"
proof (intro conjI impI)
  assume "(''COPD'' \<in> set conditions \<or> ''Asthma'' \<in> set conditions) \<and> ''Cancer'' \<in> set conditions"
  then have r: "has_respiratory (condition_flags conditions)"
    by (simp add: flags_respiratory)
  show "should_assign_of (condition_flags conditions) ''Other'' rnd k = (rnd k < 0.6, k + 1)"
    using r by (rule respiratory_rule)
  have "should_assign_of (condition_flags conditions) ''Other'' rnd 0 = (rnd 0 < 0.6, 1)"
    using respiratory_rule[OF r, of rnd 0] by simp
  then show "fst (assign_loop (condition_flags conditions) rnd [(med, med_type, ''Other'', dosage)]
             ([], Map.empty, 0)) =
        (if rnd 0 < 0.6 \<and> rnd 1 < 0.9 then [(med, med_type, ''Other'', dosage)] else [])"
    by (rule single_candidate)
next
  assume "''COPD'' \<notin> set conditions \<and> ''Asthma'' \<notin> set conditions \<and> ''Cancer'' \<in> set conditions"
  then have "\<not> has_respiratory (condition_flags conditions)"
    and "has_cancer (condition_flags conditions)"
    by (simp_all add: flags_respiratory)
  then show "should_assign_of (condition_flags conditions) ''Other'' rnd k = (rnd k < 0.7, k + 1)"
    by (rule cancer_rule)
qed

theorem other_category_priority_witness:
  "(''COPD'' \<in> set [''COPD'', ''Cancer''] \<or> ''Asthma'' \<in> set [''COPD'', ''Cancer'']) \<and>
   ''Cancer'' \<in> set [''COPD'', ''Cancer''] \<and>
   should_assign_of (condition_flags [''COPD'', ''Cancer'']) ''Other'' (\<lambda>k. 0.65) 0 = (False, 1) \<and>
   fst (assign_loop (condition_flags [''COPD'', ''Cancer'']) (\<lambda>k. 0.65)
          [(''Salbutamol'', ''Prescribed'', ''Other'', ''100 mcg as needed'')]
          ([], Map.empty, 0)) = [] \<and>
   ''COPD'' \<notin> set [''Cancer'', ''Hypertension''] \<and>
   ''Asthma'' \<notin> set [''Cancer'', ''Hypertension''] \<and>
   ''Cancer'' \<in> set [''Cancer'', ''Hypertension''] \<and>
   should_assign_of (condition_flags [''Cancer'', ''Hypertension'']) ''Other'' (\<lambda>k. 0.65) 0
     = (True, 1)"
  using other_category_priority[of "[''COPD'', ''Cancer'']" "\<lambda>k. 0.65" 0 "''Salbutamol''"
      "''Prescribed''" "''100 mcg as needed''"]
    other_category_priority[of "[''Cancer'', ''Hypertension'']" "\<lambda>k. 0.65" 0]
  by simp

section \<open>The caller's catalog\<close>

lemma shuffle_mset:
  assumes "shuffle_positions (length x) perm"
  shows "mset (py_shuffle x perm) = mset x"
proof -
  have "mset perm = mset (sort perm)" by simp
  also have "\<dots> = mset [0..<length x]"
    using assms by (simp only: shuffle_positions_def)
  finally have "image_mset ((!) x) (mset perm) = image_mset ((!) x) (mset [0..<length x])"
    by simp
  then have "mset (map ((!) x) perm) = mset (map ((!) x) [0..<length x])"
    by simp
  then show ?thesis
    by (simp only: py_shuffle_def map_nth)
qed

text \<open>
  Claim C8, as amended. The call shuffles the caller's catalog list in place: after the call
  the list holds the same medications, each as many times as before, in the order the call's
  shuffle produced, and the next patient's call in the main loop receives the list in that
  order.
\<close>

theorem catalog_after_call:
  assumes "shuffle_positions (length all_medications) perm"
  shows "snd (assign_medications_by_conditions conditions all_medications perm rnd) =
           py_shuffle all_medications perm \<and>
         mset (snd (assign_medications_by_conditions conditions all_medications perm rnd)) =
           mset all_medications \<and>
         main_medications ((conditions, perm, rnd) # rest) all_medications =
           fst (assign_medications_by_conditions conditions all_medications perm rnd) #
           main_medications rest (py_shuffle all_medications perm)"
proof -
  have s: "snd (assign_medications_by_conditions conditions all_medications perm rnd) =
             py_shuffle all_medications perm"
    by (simp add: assign_medications_by_conditions_def Let_def)
  have m: "main_medications ((conditions, perm, rnd) # rest) all_medications =
           fst (assign_medications_by_conditions conditions all_medications perm rnd) #
           main_medications rest (py_shuffle all_medications perm)"
  proof -
    obtain a c where r: "assign_medications_by_conditions conditions all_medications perm rnd = (a, c)"
      by (metis surj_pair)
    then show ?thesis using s by simp
  qed
  show ?thesis
    using s m shuffle_mset[OF assms] by simp
qed

lemma shuffle_three:
  "py_shuffle [a, b, c] [0, 1, 2] = [a, b, c]"
  "py_shuffle [a, b, c] [2, 1, 0] = [c, b, a]"
  by (simp_all add: py_shuffle_def)

lemma example_shuffled:
  "py_shuffle example_catalog [2, 1, 0] =
     [(''Metoprolol'', ''Prescribed'', ''Heart health and hypertension'', ''50 mg twice daily''),
      (''Amlodipine'', ''Prescribed'', ''Heart health and hypertension'', ''5 mg once daily''),
      (''Lisinopril'', ''Prescribed'', ''Heart health and hypertension'', ''10 mg once daily'')]"
  unfolding example_catalog_def by (rule shuffle_three(2))

lemma example_positions: "shuffle_positions (length example_catalog) [2, 1, 0]"
  unfolding shuffle_positions_def example_catalog_def by code_simp

lemma heart_rule:
  assumes "has_hypertension f"
  shows "should_assign_of f ''Heart health and hypertension'' rnd k = (True, k)"
proof -
  have "str_in ''Heart health and hypertension'' ''Heart health and hypertension''" by simp
  then show ?thesis using assms by (simp only: should_assign_of_def simp_thms if_True)
qed

lemma example_flags: "has_hypertension (condition_flags [''Hypertension'', ''Diabetes''])"
  by (simp add: condition_flags_def Let_def)

lemma heart_pass:
  assumes "has_hypertension f"
  shows "fst (assign_loop f (\<lambda>k. 0.5)
           [(m1, t1, ''Heart health and hypertension'', d1),
            (m2, t2, ''Heart health and hypertension'', d2),
            (m3, t3, ''Heart health and hypertension'', d3)] ([], Map.empty, 0)) =
         [(m1, t1, ''Heart health and hypertension'', d1),
          (m2, t2, ''Heart health and hypertension'', d2)]"
  by (simp add: heart_rule[OF assms] count_of_def)

theorem catalog_after_call_witness:
  "shuffle_positions (length example_catalog) [2, 1, 0] \<and>
   mset (snd (assign_medications_by_conditions [''Hypertension'', ''Diabetes''] example_catalog
                [2, 1, 0] (\<lambda>k. 0.5))) = mset example_catalog \<and>
   snd (assign_medications_by_conditions [''Hypertension'', ''Diabetes''] example_catalog
          [2, 1, 0] (\<lambda>k. 0.5)) =
     [(''Metoprolol'', ''Prescribed'', ''Heart health and hypertension'', ''50 mg twice daily''),
      (''Amlodipine'', ''Prescribed'', ''Heart health and hypertension'', ''5 mg once daily''),
      (''Lisinopril'', ''Prescribed'', ''Heart health and hypertension'', ''10 mg once daily'')]"
proof -
  from catalog_after_call[OF example_positions, of "[''Hypertension'', ''Diabetes'']" "\<lambda>k. 0.5" "[]"]
  have s: "snd (assign_medications_by_conditions [''Hypertension'', ''Diabetes''] example_catalog
              [2, 1, 0] (\<lambda>k. 0.5)) = py_shuffle example_catalog [2, 1, 0]"
    and m: "mset (snd (assign_medications_by_conditions [''Hypertension'', ''Diabetes'']
              example_catalog [2, 1, 0] (\<lambda>k. 0.5))) = mset example_catalog"
    by blast+
  show ?thesis
    using example_positions m s[unfolded example_shuffled] by (simp only: simp_thms)
qed

text \<open>
  The claim as stated fails: with three heart medications and a shuffle that reverses them,
  the caller's list is reversed after the call, and a second patient whose own shuffle leaves
  the order as it finds it is assigned Metoprolol and Amlodipine, where the list as first
  supplied would have given Lisinopril and Amlodipine.
\<close>

theorem catalog_unchanged_counterexample:
  "snd (assign_medications_by_conditions [''Hypertension'', ''Diabetes''] example_catalog
          [2, 1, 0] (\<lambda>k. 0.5)) =
     [(''Metoprolol'', ''Prescribed'', ''Heart health and hypertension'', ''50 mg twice daily''),
      (''Amlodipine'', ''Prescribed'', ''Heart health and hypertension'', ''5 mg once daily''),
      (''Lisinopril'', ''Prescribed'', ''Heart health and hypertension'', ''10 mg once daily'')] \<and>
   snd (assign_medications_by_conditions [''Hypertension'', ''Diabetes''] example_catalog
          [2, 1, 0] (\<lambda>k. 0.5)) \<noteq> example_catalog \<and>
   main_medications
     [([''Hypertension'', ''Diabetes''], [2, 1, 0], \<lambda>k. 0.5),
      ([''Hypertension'', ''Diabetes''], [0, 1, 2], \<lambda>k. 0.5)] example_catalog =
     [[(''Metoprolol'', ''Prescribed'', ''Heart health and hypertension'', ''50 mg twice daily''),
       (''Amlodipine'', ''Prescribed'', ''Heart health and hypertension'', ''5 mg once daily'')],
      [(''Metoprolol'', ''Prescribed'', ''Heart health and hypertension'', ''50 mg twice daily''),
       (''Amlodipine'', ''Prescribed'', ''Heart health and hypertension'', ''5 mg once daily'')]] \<and>
   fst (assign_medications_by_conditions [''Hypertension'', ''Diabetes''] example_catalog
          [0, 1, 2] (\<lambda>k. 0.5)) =
     [(''Lisinopril'', ''Prescribed'', ''Heart health and hypertension'', ''10 mg once daily''),
      (''Amlodipine'', ''Prescribed'', ''Heart health and hypertension'', ''5 mg once daily'')]"
proof -
  have a: "assign_medications_by_conditions [''Hypertension'', ''Diabetes''] example_catalog
             [2, 1, 0] (\<lambda>k. 0.5) =
           ([(''Metoprolol'', ''Prescribed'', ''Heart health and hypertension'', ''50 mg twice daily''),
             (''Amlodipine'', ''Prescribed'', ''Heart health and hypertension'', ''5 mg once daily'')],
            py_shuffle example_catalog [2, 1, 0])"
    unfolding assign_medications_by_conditions_def Let_def example_catalog_def
    by (simp only: shuffle_three heart_pass[OF example_flags]) simp
  have b: "assign_medications_by_conditions [''Hypertension'', ''Diabetes'']
             (py_shuffle example_catalog [2, 1, 0]) [0, 1, 2] (\<lambda>k. 0.5) =
           ([(''Metoprolol'', ''Prescribed'', ''Heart health and hypertension'', ''50 mg twice daily''),
             (''Amlodipine'', ''Prescribed'', ''Heart health and hypertension'', ''5 mg once daily'')],
            py_shuffle example_catalog [2, 1, 0])"
    unfolding assign_medications_by_conditions_def Let_def example_catalog_def
    by (simp only: shuffle_three heart_pass[OF example_flags]) simp
  have c: "assign_medications_by_conditions [''Hypertension'', ''Diabetes''] example_catalog
             [0, 1, 2] (\<lambda>k. 0.5) =
           ([(''Lisinopril'', ''Prescribed'', ''Heart health and hypertension'', ''10 mg once daily''),
             (''Amlodipine'', ''Prescribed'', ''Heart health and hypertension'', ''5 mg once daily'')],
            example_catalog)"
    unfolding assign_medications_by_conditions_def Let_def example_catalog_def
    by (simp only: shuffle_three heart_pass[OF example_flags]) simp
  have ne: "py_shuffle example_catalog [2, 1, 0] \<noteq> example_catalog"
    unfolding example_shuffled by (simp add: example_catalog_def)
  have m: "main_medications
     [([''Hypertension'', ''Diabetes''], [2, 1, 0], \<lambda>k. 0.5),
      ([''Hypertension'', ''Diabetes''], [0, 1, 2], \<lambda>k. 0.5)] example_catalog =
     [[(''Metoprolol'', ''Prescribed'', ''Heart health and hypertension'', ''50 mg twice daily''),
       (''Amlodipine'', ''Prescribed'', ''Heart health and hypertension'', ''5 mg once daily'')],
      [(''Metoprolol'', ''Prescribed'', ''Heart health and hypertension'', ''50 mg twice daily''),
       (''Amlodipine'', ''Prescribed'', ''Heart health and hypertension'', ''5 mg once daily'')]]"
    by (simp only: main_medications.simps a b prod.case)
  have s: "snd (assign_medications_by_conditions [''Hypertension'', ''Diabetes''] example_catalog
          [2, 1, 0] (\<lambda>k. 0.5)) = py_shuffle example_catalog [2, 1, 0]"
    by (simp only: a snd_conv)
  have f: "fst (assign_medications_by_conditions [''Hypertension'', ''Diabetes''] example_catalog
          [0, 1, 2] (\<lambda>k. 0.5)) =
     [(''Lisinopril'', ''Prescribed'', ''Heart health and hypertension'', ''10 mg once daily''),
      (''Amlodipine'', ''Prescribed'', ''Heart health and hypertension'', ''5 mg once daily'')]"
    by (simp only: c fst_conv)
  show ?thesis
    using ne m f s[unfolded example_shuffled] s by (simp only: simp_thms)
qed

end
